theory Spec2Isabelle
  imports Main "HOL-Library.Sublist" "HOL-Library.Code_Target_Nat"
begin

text \<open>
  A shallow embedding of the tab-search popup (class \<open>TabSearcher\<close>) and the properties its
  specification states.  The repository holds the class twice: as a classic script
  (\<^verbatim>\<open>src/popup.js\<close>, lines 1-347) and as an ES module (the JavaScript that follows the README text
  in \<^verbatim>\<open>src/build/README.md\<close>, lines 374-739; the unit tests import this one).  The two differ
  in a few places; the embedding carries both, told apart by a parameter of type \<open>variant\<close>.
\<close>

section \<open>JavaScript strings\<close>

text \<open>
  A string is a list of UTF-16 code units, the numbers below 65536.  The functions below
  are defined for every number, so a statement about all strings covers every string the
  popup can meet.
\<close>

type_synonym jschar = nat
type_synonym jsstring = "jschar list"

text \<open>The code unit of a character of U+0000 to U+00FF, and the string of a text of such characters.\<close>

definition code_unit :: "char \<Rightarrow> jschar" where
  [simp]: "code_unit c = of_char c"

definition lit :: "string \<Rightarrow> jsstring" where
  "lit s = map code_unit s"

text \<open>
  \<open>s.toLowerCase()\<close> and \<open>s.toUpperCase()\<close> convert by the Unicode tables of the engine that
  runs the popup.  The conversion is not a map over code units: a capital sigma becomes
  one of two small letters by its place in a word, and one code unit can become several.
  The engine is a parameter of the embedding, and nothing is assumed of it.
\<close>

record engine =
  toLowerCase :: "jsstring \<Rightarrow> jsstring"
  toUpperCase :: "jsstring \<Rightarrow> jsstring"

text \<open>
  \<open>Canonicalize(ch)\<close> of a pattern with the flag \<open>i\<close> and without the flag \<open>u\<close>: the upper case
  of the code unit when that is one code unit, except that no code unit from U+0080 on
  becomes one below U+0080.
\<close>

definition canonicalize :: "engine \<Rightarrow> jschar \<Rightarrow> jschar" where
  "canonicalize e ch =
     (case toUpperCase e [ch] of
        [cu] \<Rightarrow> if 128 \<le> ch \<and> cu < 128 then ch else cu
      | _ \<Rightarrow> ch)"

text \<open>\<open>WhiteSpace\<close> and \<open>LineTerminator\<close> code units: what \<open>trim\<close> strips and \<open>\s\<close> matches.\<close>

definition isWhiteSpace :: "jschar \<Rightarrow> bool" where
  "isWhiteSpace c =
     (c \<in> {0x09, 0x0A, 0x0B, 0x0C, 0x0D, 0x20, 0xA0, 0x1680, 0x2028, 0x2029, 0x202F, 0x205F, 0x3000, 0xFEFF}
      \<or> (0x2000 \<le> c \<and> c \<le> 0x200A))"

definition isLineTerminator :: "jschar \<Rightarrow> bool" where
  "isLineTerminator c = (c \<in> {0x0A, 0x0D, 0x2028, 0x2029})"

definition isDigit :: "jschar \<Rightarrow> bool" where
  "isDigit c = (48 \<le> c \<and> c \<le> 57)"

definition isWordChar :: "jschar \<Rightarrow> bool" where
  "isWordChar c =
     ((97 \<le> c \<and> c \<le> 122) \<or> (65 \<le> c \<and> c \<le> 90) \<or> (48 \<le> c \<and> c \<le> 57) \<or> c = 95)"

section \<open>Regular expressions\<close>

datatype js_error = SyntaxError | HostError string | Unmodelled

datatype class_escape = Digit | NotDigit | Space | NotSpace | Word | NotWord

datatype class_item = CChar jschar | CRange jschar jschar | CEsc class_escape

datatype token =
    TChar jschar | TAny | TClass bool "class_item list"
  | TStart | TEnd | TWordB | TNotWordB
  | TOpen | TOpenNC | TLook bool | TClose | TBar
  | TQuant nat "nat option" bool

fun decimal :: "jsstring \<Rightarrow> nat \<Rightarrow> nat" where
  "decimal [] acc = acc"
| "decimal (c # cs) acc = decimal cs (10 * acc + (c - 48))"

text \<open>The escape after a backslash, outside a character class.\<close>

definition atom_escape :: "jschar \<Rightarrow> jsstring \<Rightarrow> js_error + token" where
  "atom_escape e rest =
     (if e = code_unit (CHR ''b'') then Inr TWordB
      else if e = code_unit (CHR ''B'') then Inr TNotWordB
      else if e = code_unit (CHR ''d'') then Inr (TClass False [CEsc Digit])
      else if e = code_unit (CHR ''D'') then Inr (TClass False [CEsc NotDigit])
      else if e = code_unit (CHR ''s'') then Inr (TClass False [CEsc Space])
      else if e = code_unit (CHR ''S'') then Inr (TClass False [CEsc NotSpace])
      else if e = code_unit (CHR ''w'') then Inr (TClass False [CEsc Word])
      else if e = code_unit (CHR ''W'') then Inr (TClass False [CEsc NotWord])
      else if e = code_unit (CHR ''t'') then Inr (TChar (0x09))
      else if e = code_unit (CHR ''n'') then Inr (TChar (0x0A))
      else if e = code_unit (CHR ''v'') then Inr (TChar (0x0B))
      else if e = code_unit (CHR ''f'') then Inr (TChar (0x0C))
      else if e = code_unit (CHR ''r'') then Inr (TChar (0x0D))
      else if e = code_unit (CHR ''0'') then
        (case rest of d # _ \<Rightarrow> if isDigit d then Inl Unmodelled else Inr (TChar (0x00))
                    | [] \<Rightarrow> Inr (TChar (0x00)))
      else if isDigit e \<or> e \<in> {code_unit (CHR ''x''), code_unit (CHR ''u''), code_unit (CHR ''c''), code_unit (CHR ''k'')} then Inl Unmodelled
      else Inr (TChar e))"

definition class_escape_atom :: "jschar \<Rightarrow> jsstring \<Rightarrow> js_error + class_item" where
  "class_escape_atom e rest =
     (if e = code_unit (CHR ''b'') then Inr (CChar (0x08))
      else if e = code_unit (CHR ''d'') then Inr (CEsc Digit)
      else if e = code_unit (CHR ''D'') then Inr (CEsc NotDigit)
      else if e = code_unit (CHR ''s'') then Inr (CEsc Space)
      else if e = code_unit (CHR ''S'') then Inr (CEsc NotSpace)
      else if e = code_unit (CHR ''w'') then Inr (CEsc Word)
      else if e = code_unit (CHR ''W'') then Inr (CEsc NotWord)
      else if e = code_unit (CHR ''t'') then Inr (CChar (0x09))
      else if e = code_unit (CHR ''n'') then Inr (CChar (0x0A))
      else if e = code_unit (CHR ''v'') then Inr (CChar (0x0B))
      else if e = code_unit (CHR ''f'') then Inr (CChar (0x0C))
      else if e = code_unit (CHR ''r'') then Inr (CChar (0x0D))
      else if e = code_unit (CHR ''0'') then
        (case rest of d # _ \<Rightarrow> if isDigit d then Inl Unmodelled else Inr (CChar (0x00))
                    | [] \<Rightarrow> Inr (CChar (0x00)))
      else if isDigit e \<or> e \<in> {code_unit (CHR ''x''), code_unit (CHR ''u''), code_unit (CHR ''c''), code_unit (CHR ''k'')} then Inl Unmodelled
      else Inr (CChar e))"

text \<open>One ClassAtom at the head of the text, and the text after it.\<close>

definition class_atom :: "jsstring \<Rightarrow> js_error + (class_item \<times> jsstring)" where
  "class_atom s =
     (case s of
        [] \<Rightarrow> Inl SyntaxError
      | c # cs \<Rightarrow>
          if c = 0x5C then
            (case cs of
               [] \<Rightarrow> Inl SyntaxError
             | e # rest \<Rightarrow> (case class_escape_atom e rest of Inl err \<Rightarrow> Inl err | Inr a \<Rightarrow> Inr (a, rest)))
          else Inr (CChar c, cs))"

lemma class_atom_shorter: "class_atom s = Inr (a, rest) \<Longrightarrow> length rest < length s"
  unfolding class_atom_def by (auto split: if_splits list.splits sum.splits)

text \<open>One member of ClassRanges: an atom, or a range \<open>a-b\<close>.\<close>

definition class_member :: "jsstring \<Rightarrow> js_error + (class_item list \<times> jsstring)" where
  "class_member s =
     (case class_atom s of
        Inl err \<Rightarrow> Inl err
      | Inr (a, rest) \<Rightarrow>
          if take 1 rest = lit ''-'' \<and> drop 1 rest \<noteq> [] \<and> take 1 (drop 1 rest) \<noteq> lit '']'' then
            (case class_atom (drop 1 rest) of
               Inl err \<Rightarrow> Inl err
             | Inr (b, rest') \<Rightarrow>
                 (case (a, b) of
                    (CChar lo, CChar hi) \<Rightarrow>
                      if hi < lo then Inl SyntaxError
                      else Inr ([CRange lo hi], rest')
                  | _ \<Rightarrow> Inr ([a, CChar (code_unit (CHR ''-'')), b], rest')))
          else Inr ([a], rest))"

lemma class_member_shorter:
  assumes "class_member s = Inr (items, rest)"
  shows "length rest < length s"
proof (cases "class_atom s")
  case (Inl e)
  with assms show ?thesis by (simp add: class_member_def)
next
  case (Inr p)
  obtain a r where p: "p = (a, r)" by (cases p)
  have r: "length r < length s" using Inr p class_atom_shorter by blast
  show ?thesis
  proof (cases "take 1 r = lit ''-'' \<and> drop 1 r \<noteq> [] \<and> take 1 (drop 1 r) \<noteq> lit '']''")
    case False
    with assms Inr p have "rest = r" by (auto simp: class_member_def)
    with r show ?thesis by simp
  next
    case True
    show ?thesis
    proof (cases "class_atom (drop 1 r)")
      case (Inl e)
      with assms Inr p True show ?thesis by (simp add: class_member_def)
    next
      case (Inr q)
      obtain b r' where q: "q = (b, r')" by (cases q)
      have "length r' < length (drop 1 r)" using Inr q class_atom_shorter by blast
      moreover have "rest = r'"
        using assms \<open>class_atom s = Inr p\<close> p True Inr q
        by (auto simp: class_member_def split: class_item.splits if_splits)
      ultimately show ?thesis using r by simp
    qed
  qed
qed

function class_ranges :: "jsstring \<Rightarrow> js_error + (class_item list \<times> jsstring)" where
  "class_ranges s =
     (if s = [] then Inl SyntaxError
      else if take 1 s = lit '']'' then Inr ([], drop 1 s)
      else
        (case class_member s of
           Inl err \<Rightarrow> Inl err
         | Inr (items, rest) \<Rightarrow>
            (case class_ranges rest of
               Inl err \<Rightarrow> Inl err
             | Inr (others, after) \<Rightarrow> Inr (items @ others, after))))"
  by pat_completeness auto
termination
  by (relation "measure length") (auto dest: class_member_shorter)

declare class_ranges.simps [simp del]

lemma class_ranges_shorter: "class_ranges s = Inr (items, rest) \<Longrightarrow> length rest < length s"
proof (induction s arbitrary: items rest rule: class_ranges.induct)
  case (1 s)
  show ?case
  proof (cases "s = [] \<or> take 1 s = lit '']''")
    case True
    with "1.prems" show ?thesis
      by (cases s) (auto simp: class_ranges.simps split: if_splits)
  next
    case False
    then obtain its r where m: "class_member s = Inr (its, r)"
      using "1.prems" by (subst (asm) class_ranges.simps) (auto split: sum.splits)
    then obtain others where "class_ranges r = Inr (others, rest)"
      using "1.prems" False by (subst (asm) class_ranges.simps) (auto split: sum.splits)
    then have "length rest < length r" using "1.IH" False m by blast
    with class_member_shorter [OF m] show ?thesis by simp
  qed
qed


subsection \<open>Tokens\<close>

definition braced :: "jsstring \<Rightarrow> ((nat \<times> nat option) \<times> jsstring) option" where
  "braced s =
     (let ds = takeWhile isDigit s; r = dropWhile isDigit s
      in if ds = [] then None
         else if take 1 r = lit ''}'' then Some ((decimal ds 0, Some (decimal ds 0)), drop 1 r)
         else if take 1 r = lit '','' then
           (let es = takeWhile isDigit (drop 1 r); r' = dropWhile isDigit (drop 1 r)
            in if take 1 r' = lit ''}''
               then Some ((decimal ds 0, if es = [] then None else Some (decimal es 0)), drop 1 r')
               else None)
         else None)"

lemma braced_shorter: "braced s = Some (q, rest) \<Longrightarrow> length rest \<le> length s"
proof -
  assume a: "braced s = Some (q, rest)"
  have 1: "length (dropWhile isDigit s) \<le> length s"
    by (rule length_dropWhile_le)
  have 2: "length (dropWhile isDigit (drop 1 (dropWhile isDigit s))) \<le> length s"
    using length_dropWhile_le [of isDigit "drop 1 (dropWhile isDigit s)"] 1 by simp
  from a have "rest = drop 1 (dropWhile isDigit s)
      \<or> rest = drop 1 (dropWhile isDigit (drop 1 (dropWhile isDigit s)))"
    by (auto simp: braced_def Let_def split: if_splits)
  with 1 2 show ?thesis by auto
qed

definition quant :: "nat \<Rightarrow> nat option \<Rightarrow> jsstring \<Rightarrow> token \<times> jsstring" where
  "quant mn mx rest =
     (if take 1 rest = lit ''?'' then (TQuant mn mx False, drop 1 rest) else (TQuant mn mx True, rest))"

lemma quant_shorter: "quant mn mx s = (t, rest) \<Longrightarrow> length rest \<le> length s"
  by (auto simp: quant_def split: if_splits)

definition group_open :: "jsstring \<Rightarrow> js_error + (token \<times> jsstring)" where
  "group_open cs =
     (if take 1 cs = lit ''?'' then
        (if take 1 (drop 1 cs) = lit '':'' then Inr (TOpenNC, drop 2 cs)
         else if take 1 (drop 1 cs) = lit ''='' then Inr (TLook False, drop 2 cs)
         else if take 1 (drop 1 cs) = lit ''!'' then Inr (TLook True, drop 2 cs)
         else if take 1 (drop 1 cs) \<in> {lit ''<'', lit ''i'', lit ''m'', lit ''s'', lit ''-''} then Inl Unmodelled
         else Inl SyntaxError)
      else Inr (TOpen, cs))"

lemma group_open_shorter: "group_open s = Inr (t, rest) \<Longrightarrow> length rest \<le> length s"
  by (auto simp: group_open_def split: if_splits)

definition next_token :: "jsstring \<Rightarrow> js_error + (token \<times> jsstring)" where
  "next_token s =
     (case s of
        [] \<Rightarrow> Inl SyntaxError
      | c # cs \<Rightarrow>
          if c = 0x5C then
            (case cs of
               [] \<Rightarrow> Inl SyntaxError
             | e # rest \<Rightarrow> (case atom_escape e rest of Inl err \<Rightarrow> Inl err | Inr t \<Rightarrow> Inr (t, rest)))
          else if c = code_unit (CHR ''.'') then Inr (TAny, cs)
          else if c = code_unit (CHR ''^'') then Inr (TStart, cs)
          else if c = code_unit (CHR ''$'') then Inr (TEnd, cs)
          else if c = code_unit (CHR ''|'') then Inr (TBar, cs)
          else if c = code_unit (CHR '')'') then Inr (TClose, cs)
          else if c = code_unit (CHR ''('') then group_open cs
          else if c = code_unit (CHR ''*'') then Inr (quant 0 None cs)
          else if c = code_unit (CHR ''+'') then Inr (quant 1 None cs)
          else if c = code_unit (CHR ''?'') then Inr (quant 0 (Some 1) cs)
          else if c = code_unit (CHR ''{'') then
            (case braced cs of
               None \<Rightarrow> Inr (TChar c, cs)
             | Some ((mn, mx), rest) \<Rightarrow>
                 if (case mx of Some m \<Rightarrow> m < mn | None \<Rightarrow> False) then Inl SyntaxError
                 else Inr (quant mn mx rest))
          else if c = code_unit (CHR ''['') then
            (case class_ranges (if take 1 cs = lit ''^'' then drop 1 cs else cs) of
               Inl err \<Rightarrow> Inl err
             | Inr (items, rest) \<Rightarrow> Inr (TClass (take 1 cs = lit ''^'') items, rest))
          else Inr (TChar c, cs))"

lemma next_token_shorter:
  assumes "next_token s = Inr (t, rest)"
  shows "length rest < length s"
proof (cases s)
  case Nil
  with assms show ?thesis by (simp add: next_token_def)
next
  case (Cons c cs)
  have le: "length rest \<le> length cs"
  proof -
    consider (esc) "c = 0x5C"
      | (grp) "c \<noteq> 0x5C" "c = code_unit (CHR ''('')"
      | (q) "c \<noteq> 0x5C" "c \<in> {code_unit (CHR ''*''), code_unit (CHR ''+''), code_unit (CHR ''?'')}"
      | (br) "c \<noteq> 0x5C" "c = code_unit (CHR ''{'')"
      | (cl) "c \<noteq> 0x5C" "c = code_unit (CHR ''['')"
      | (other) "c \<notin> {0x5C, code_unit (CHR ''(''), code_unit (CHR ''*''), code_unit (CHR ''+''), code_unit (CHR ''?''), code_unit (CHR ''{''), code_unit (CHR ''['')}"
      by auto
    then show ?thesis
    proof cases
      case esc
      with assms Cons show ?thesis
        by (auto simp: next_token_def split: list.splits sum.splits)
    next
      case grp
      with assms Cons have "group_open cs = Inr (t, rest)" by (simp add: next_token_def)
      then show ?thesis by (rule group_open_shorter)
    next
      case q
      with assms Cons have "\<exists>mn mx. quant mn mx cs = (t, rest)"
        by (auto simp: next_token_def split: if_splits)
      then show ?thesis using quant_shorter by blast
    next
      case br
      show ?thesis
      proof (cases "braced cs")
        case None
        with assms Cons br show ?thesis by (simp add: next_token_def)
      next
        case (Some p)
        obtain mn mx r where p: "p = ((mn, mx), r)" by (cases p) auto
        with assms Cons br Some have "quant mn mx r = (t, rest)"
          by (auto simp: next_token_def split: if_splits)
        then have "length rest \<le> length r" by (rule quant_shorter)
        moreover have "length r \<le> length cs" using Some p braced_shorter by blast
        ultimately show ?thesis by simp
      qed
    next
      case cl
      with assms Cons obtain items where
        "class_ranges (if take 1 cs = lit ''^'' then drop 1 cs else cs) = Inr (items, rest)"
        by (auto simp: next_token_def split: sum.splits)
      then have "length rest < length (if take 1 cs = lit ''^'' then drop 1 cs else cs)"
        by (rule class_ranges_shorter)
      then show ?thesis by (auto split: if_splits)
    next
      case other
      with assms Cons show ?thesis by (auto simp: next_token_def split: if_splits)
    qed
  qed
  with Cons show ?thesis by simp
qed

function tokenize :: "jsstring \<Rightarrow> js_error + token list" where
  "tokenize s =
     (if s = [] then Inr []
      else
        (case next_token s of
           Inl err \<Rightarrow> Inl err
         | Inr (t, rest) \<Rightarrow> (case tokenize rest of Inl err \<Rightarrow> Inl err | Inr ts \<Rightarrow> Inr (t # ts))))"
  by pat_completeness auto
termination
  by (relation "measure length") (auto dest: next_token_shorter)

declare tokenize.simps [simp del]


subsection \<open>Syntax trees\<close>

datatype regex =
    REmpty
  | RChar jschar
  | RAny
  | RClass bool "class_item list"
  | RStart | REnd | RWordB | RNotWordB
  | RSeq regex regex
  | RAlt regex regex
  | RGroup nat regex
  | RLook bool regex
  | RRepeat regex nat "nat option" bool

datatype frame_kind = FTop | FCapture nat | FNonCapture | FLook bool

text \<open>
  A frame of the parser: the kind of group being read, its finished alternatives, the
  terms of the alternative being read, and whether the last term can take a quantifier.
\<close>

type_synonym frame = "frame_kind \<times> regex list \<times> regex list \<times> bool"

fun seq_of :: "regex list \<Rightarrow> regex" where
  "seq_of [] = REmpty"
| "seq_of [r] = r"
| "seq_of (r # rs) = RSeq r (seq_of rs)"

fun alt_of :: "regex list \<Rightarrow> regex" where
  "alt_of [] = REmpty"
| "alt_of [r] = r"
| "alt_of (r # rs) = RAlt r (alt_of rs)"

definition close_frame :: "frame \<Rightarrow> regex" where
  "close_frame fr =
     (case fr of (kind, alts, cur, q) \<Rightarrow>
        (let d = alt_of (alts @ [seq_of cur])
         in case kind of
              FTop \<Rightarrow> d
            | FCapture n \<Rightarrow> RGroup n d
            | FNonCapture \<Rightarrow> d
            | FLook neg \<Rightarrow> RLook neg d))"

definition push_term :: "regex \<Rightarrow> bool \<Rightarrow> frame \<Rightarrow> frame" where
  "push_term r quantifiable fr = (case fr of (kind, alts, cur, q) \<Rightarrow> (kind, alts, cur @ [r], quantifiable))"

definition quantify :: "nat \<Rightarrow> nat option \<Rightarrow> bool \<Rightarrow> frame \<Rightarrow> frame option" where
  "quantify mn mx greedy fr =
     (case fr of (kind, alts, cur, q) \<Rightarrow>
        if q \<and> cur \<noteq> [] then Some (kind, alts, butlast cur @ [RRepeat (last cur) mn mx greedy], False)
        else None)"

type_synonym parser_state = "frame \<times> frame list \<times> nat"

definition parse_step :: "token \<Rightarrow> parser_state \<Rightarrow> js_error + parser_state" where
  "parse_step t st =
     (case st of (fr, stack, n) \<Rightarrow>
        (case t of
           TChar c \<Rightarrow> Inr (push_term (RChar c) True fr, stack, n)
         | TAny \<Rightarrow> Inr (push_term RAny True fr, stack, n)
         | TClass inverted items \<Rightarrow> Inr (push_term (RClass inverted items) True fr, stack, n)
         | TStart \<Rightarrow> Inr (push_term RStart False fr, stack, n)
         | TEnd \<Rightarrow> Inr (push_term REnd False fr, stack, n)
         | TWordB \<Rightarrow> Inr (push_term RWordB False fr, stack, n)
         | TNotWordB \<Rightarrow> Inr (push_term RNotWordB False fr, stack, n)
         | TOpen \<Rightarrow> Inr ((FCapture (Suc n), [], [], False), fr # stack, Suc n)
         | TOpenNC \<Rightarrow> Inr ((FNonCapture, [], [], False), fr # stack, n)
         | TLook neg \<Rightarrow> Inr ((FLook neg, [], [], False), fr # stack, n)
         | TClose \<Rightarrow>
             (case stack of
                [] \<Rightarrow> Inl SyntaxError
              | parent # stack' \<Rightarrow> Inr (push_term (close_frame fr) True parent, stack', n))
         | TBar \<Rightarrow>
             (case fr of (kind, alts, cur, q) \<Rightarrow> Inr ((kind, alts @ [seq_of cur], [], False), stack, n))
         | TQuant mn mx greedy \<Rightarrow>
             (case quantify mn mx greedy fr of
                None \<Rightarrow> Inl SyntaxError
              | Some fr' \<Rightarrow> Inr (fr', stack, n))))"

fun parse_tokens :: "token list \<Rightarrow> parser_state \<Rightarrow> js_error + (regex \<times> nat)" where
  "parse_tokens [] st =
     (case st of (fr, stack, n) \<Rightarrow> if stack = [] then Inr (close_frame fr, n) else Inl SyntaxError)"
| "parse_tokens (t # ts) st =
     (case parse_step t st of Inl err \<Rightarrow> Inl err | Inr st' \<Rightarrow> parse_tokens ts st')"

record regexp =
  pattern_tree :: regex
  group_count :: nat

definition RegExp :: "jsstring \<Rightarrow> js_error + regexp" where
  "RegExp pattern =
     (case tokenize pattern of
        Inl err \<Rightarrow> Inl err
      | Inr ts \<Rightarrow>
          (case parse_tokens ts ((FTop, [], [], False), [], 0) of
             Inl err \<Rightarrow> Inl err
           | Inr (r, n) \<Rightarrow> Inr \<lparr>pattern_tree = r, group_count = n\<rparr>))"


subsection \<open>Matching\<close>

type_synonym captures = "nat \<Rightarrow> (nat \<times> nat) option"
type_synonym mstate = "nat \<times> captures"
type_synonym continuation = "mstate \<Rightarrow> mstate option"

fun in_escape :: "class_escape \<Rightarrow> jschar \<Rightarrow> bool" where
  "in_escape Digit c = isDigit c"
| "in_escape NotDigit c = (\<not> isDigit c)"
| "in_escape Space c = isWhiteSpace c"
| "in_escape NotSpace c = (\<not> isWhiteSpace c)"
| "in_escape Word c = isWordChar c"
| "in_escape NotWord c = (\<not> isWordChar c)"

text \<open>
  With the flag \<open>i\<close> a class matches a code unit when one of its members has the same
  canonical form (\<open>CharacterSetMatcher\<close>).
\<close>

definition item_matches :: "engine \<Rightarrow> class_item \<Rightarrow> jschar \<Rightarrow> bool" where
  "item_matches e i c =
     (case i of
        CChar a \<Rightarrow> canonicalize e a = canonicalize e c
      | CRange lo hi \<Rightarrow> list_ex (\<lambda>a. canonicalize e a = canonicalize e c) [lo ..< Suc hi]
      | CEsc esc \<Rightarrow>
          list_ex (\<lambda>a. in_escape esc a \<and> canonicalize e a = canonicalize e c) [0 ..< 65536])"

definition class_matches :: "engine \<Rightarrow> class_item list \<Rightarrow> jschar \<Rightarrow> bool" where
  "class_matches e items c = list_ex (\<lambda>i. item_matches e i c) items"

definition isWordBoundary :: "jsstring \<Rightarrow> nat \<Rightarrow> bool" where
  "isWordBoundary inp e =
     ((0 < e \<and> e - 1 < length inp \<and> isWordChar (inp ! (e - 1)))
        \<noteq> (e < length inp \<and> isWordChar (inp ! e)))"

fun groups_of :: "regex \<Rightarrow> nat list" where
  "groups_of (RSeq a b) = groups_of a @ groups_of b"
| "groups_of (RAlt a b) = groups_of a @ groups_of b"
| "groups_of (RGroup n r) = n # groups_of r"
| "groups_of (RLook neg r) = groups_of r"
| "groups_of (RRepeat r mn mx g) = groups_of r"
| "groups_of r = []"

definition clear_captures :: "nat list \<Rightarrow> captures \<Rightarrow> captures" where
  "clear_captures gs caps = (\<lambda>n. if n \<in> set gs then None else caps n)"

function repeat_matcher ::
  "nat \<Rightarrow> (mstate \<Rightarrow> continuation \<Rightarrow> mstate option) \<Rightarrow> nat list \<Rightarrow> nat \<Rightarrow> nat option \<Rightarrow> bool
     \<Rightarrow> mstate \<Rightarrow> continuation \<Rightarrow> mstate option" where
  "repeat_matcher len m gs mn mx greedy x c =
     (if mx = Some 0 then c x
      else if mn \<noteq> 0 then
        m (fst x, clear_captures gs (snd x))
          (\<lambda>y. repeat_matcher len m gs (mn - 1) (map_option (\<lambda>k. k - 1) mx) greedy y c)
      else if \<not> greedy then
        (case c x of
           Some z \<Rightarrow> Some z
         | None \<Rightarrow>
             m (fst x, clear_captures gs (snd x))
               (\<lambda>y. if fst y \<le> fst x \<or> len < fst y then None
                    else repeat_matcher len m gs 0 (map_option (\<lambda>k. k - 1) mx) greedy y c))
      else
        (case m (fst x, clear_captures gs (snd x))
                (\<lambda>y. if fst y \<le> fst x \<or> len < fst y then None
                     else repeat_matcher len m gs 0 (map_option (\<lambda>k. k - 1) mx) greedy y c) of
           Some z \<Rightarrow> Some z
         | None \<Rightarrow> c x))"
  by pat_completeness auto
termination
  by (relation "measures [\<lambda>(len, m, gs, mn, mx, greedy, x, c). mn,
                          \<lambda>(len, m, gs, mn, mx, greedy, x, c). len - fst x]") auto

declare repeat_matcher.simps [simp del]

fun matcher :: "engine \<Rightarrow> jsstring \<Rightarrow> regex \<Rightarrow> mstate \<Rightarrow> continuation \<Rightarrow> mstate option" where
  "matcher e inp REmpty x c = c x"
| "matcher e inp (RChar ch) x c =
     (if fst x < length inp \<and> canonicalize e (inp ! fst x) = canonicalize e ch
      then c (Suc (fst x), snd x) else None)"
| "matcher e inp RAny x c =
     (if fst x < length inp \<and> \<not> isLineTerminator (inp ! fst x)
      then c (Suc (fst x), snd x) else None)"
| "matcher e inp (RClass inverted items) x c =
     (if fst x < length inp \<and> (class_matches e items (inp ! fst x) \<noteq> inverted)
      then c (Suc (fst x), snd x) else None)"
| "matcher e inp RStart x c = (if fst x = 0 then c x else None)"
| "matcher e inp REnd x c = (if fst x = length inp then c x else None)"
| "matcher e inp RWordB x c = (if isWordBoundary inp (fst x) then c x else None)"
| "matcher e inp RNotWordB x c = (if isWordBoundary inp (fst x) then None else c x)"
| "matcher e inp (RSeq a b) x c = matcher e inp a x (\<lambda>y. matcher e inp b y c)"
| "matcher e inp (RAlt a b) x c =
     (case matcher e inp a x c of Some z \<Rightarrow> Some z | None \<Rightarrow> matcher e inp b x c)"
| "matcher e inp (RGroup n r) x c =
     matcher e inp r x (\<lambda>y. c (fst y, (snd y)(n := Some (fst x, fst y))))"
| "matcher e inp (RLook negated r) x c =
     (case matcher e inp r x Some of
        None \<Rightarrow> if negated then c x else None
      | Some y \<Rightarrow> if negated then None else c (fst x, snd y))"
| "matcher e inp (RRepeat r mn mx greedy) x c =
     repeat_matcher (length inp) (\<lambda>y k. matcher e inp r y k) (groups_of r) mn mx greedy x c"

text \<open>\<open>RegExpBuiltinExec\<close> without the sticky flag: the first index from \<open>lastIndex\<close> on where the
  pattern matches, with the end of the match and the captures.\<close>

definition match_at :: "engine \<Rightarrow> regexp \<Rightarrow> jsstring \<Rightarrow> nat \<Rightarrow> mstate option" where
  "match_at e re inp i = matcher e inp (pattern_tree re) (i, \<lambda>n. None) Some"

definition exec :: "engine \<Rightarrow> regexp \<Rightarrow> jsstring \<Rightarrow> nat \<Rightarrow> (nat \<times> nat \<times> captures) option" where
  "exec e re inp lastIndex =
     (case List.find (\<lambda>i. match_at e re inp i \<noteq> None) [lastIndex ..< Suc (length inp)] of
        None \<Rightarrow> None
      | Some i \<Rightarrow> map_option (\<lambda>y. (i, fst y, snd y)) (match_at e re inp i))"

definition test :: "engine \<Rightarrow> regexp \<Rightarrow> jsstring \<Rightarrow> bool" where
  "test e re inp = (exec e re inp 0 \<noteq> None)"


lemma exec_bounds:
  assumes "exec e re inp i = Some (st, en, caps)"
  shows "i \<le> st \<and> st \<le> length inp"
proof -
  from assms obtain k where k: "List.find (\<lambda>i. match_at e re inp i \<noteq> None) [i ..< Suc (length inp)] = Some k"
    and st: "st = k"
    by (auto simp: exec_def split: option.splits)
  from k obtain j where "j < length [i ..< Suc (length inp)]" "[i ..< Suc (length inp)] ! j = k"
    unfolding find_Some_iff by blast
  then have "k \<in> set [i ..< Suc (length inp)]"
    using nth_mem by blast
  then have "i \<le> k \<and> k < Suc (length inp)"
    unfolding set_upt by simp
  with st show ?thesis by simp
qed

function matches_from :: "engine \<Rightarrow> regexp \<Rightarrow> jsstring \<Rightarrow> nat \<Rightarrow> (nat \<times> nat \<times> captures) list" where
  "matches_from e re inp lastIndex =
     (if length inp < lastIndex then []
      else
        (case exec e re inp lastIndex of
           None \<Rightarrow> []
         | Some (st, en, caps) \<Rightarrow>
             (st, en, caps) # matches_from e re inp (if en \<le> st then Suc st else en)))"
  by pat_completeness auto
termination
proof (relation "measure (\<lambda>(e, re, inp, i). Suc (length inp) - i)", goal_cases)
  case 1
  show ?case by simp
next
  case (2 e re inp lastIndex x2 st y en caps)
  then have "exec e re inp lastIndex = Some (st, en, caps)" by simp
  then have "lastIndex \<le> st" using exec_bounds by blast
  with 2 show ?case by auto
qed

declare matches_from.simps [simp del]

fun getSubstitution ::
  "jsstring \<Rightarrow> jsstring \<Rightarrow> nat \<Rightarrow> nat \<Rightarrow> (nat \<Rightarrow> jsstring option) \<Rightarrow> jsstring \<Rightarrow> jsstring" where
  "getSubstitution matched str position m caps [] = []"
| "getSubstitution matched str position m caps (c # t) =
     (if c \<noteq> code_unit (CHR ''$'') then c # getSubstitution matched str position m caps t
      else
        (case t of
           [] \<Rightarrow> [c]
         | d # t' \<Rightarrow>
             if d = code_unit (CHR ''$'') then code_unit (CHR ''$'') # getSubstitution matched str position m caps t'
             else if d = code_unit (CHR ''&'') then matched @ getSubstitution matched str position m caps t'
             else if d = 0x60 then take position str @ getSubstitution matched str position m caps t'
             else if d = 0x27 then
               drop (position + length matched) str @ getSubstitution matched str position m caps t'
             else if isDigit d then
               (case t' of
                  [] \<Rightarrow>
                    (if 1 \<le> decimal [d] 0 \<and> decimal [d] 0 \<le> m
                     then (case caps (decimal [d] 0) of None \<Rightarrow> [] | Some s \<Rightarrow> s)
                     else [c, d])
                | d' # t'' \<Rightarrow>
                    if isDigit d' \<and> decimal [d, d'] 0 \<le> m then
                      (if 1 \<le> decimal [d, d'] 0
                       then (case caps (decimal [d, d'] 0) of None \<Rightarrow> [] | Some s \<Rightarrow> s)
                       else [c, d, d'])
                        @ getSubstitution matched str position m caps t''
                    else
                      (if 1 \<le> decimal [d] 0 \<and> decimal [d] 0 \<le> m
                       then (case caps (decimal [d] 0) of None \<Rightarrow> [] | Some s \<Rightarrow> s)
                       else [c, d])
                        @ getSubstitution matched str position m caps t')
             else c # getSubstitution matched str position m caps t))"

fun splice :: "jsstring \<Rightarrow> nat \<Rightarrow> jsstring \<Rightarrow> (nat \<times> nat \<times> captures) list \<Rightarrow> nat \<Rightarrow> jsstring" where
  "splice str m replacement [] nextSourcePosition = drop nextSourcePosition str"
| "splice str m replacement ((position, en, caps) # results) nextSourcePosition =
     (let matched = take (en - position) (drop position str);
          captured = (\<lambda>n. map_option (\<lambda>(a, b). take (b - a) (drop a str)) (caps n))
      in if nextSourcePosition \<le> position then
           take (position - nextSourcePosition) (drop nextSourcePosition str)
             @ getSubstitution matched str position m captured replacement
             @ splice str m replacement results (position + length matched)
         else splice str m replacement results nextSourcePosition)"

definition replace_global :: "engine \<Rightarrow> regexp \<Rightarrow> jsstring \<Rightarrow> jsstring \<Rightarrow> jsstring" where
  "replace_global e re str replacement =
     splice str (group_count re) replacement (matches_from e re str 0) 0"


section \<open>Values, strings and the two escapings\<close>

definition trim :: "jsstring \<Rightarrow> jsstring" where
  "trim s = rev (dropWhile isWhiteSpace (rev (dropWhile isWhiteSpace s)))"

text \<open>\<open>s.includes(q)\<close>: \<open>q\<close> occurs in \<open>s\<close> as a run of consecutive code units.\<close>

fun js_includes :: "jsstring \<Rightarrow> jsstring \<Rightarrow> bool" where
  "js_includes [] q = (q = [])"
| "js_includes (c # s) q = (take (length q) (c # s) = q \<or> js_includes s q)"

text \<open>The decimal digits of a number, as a template literal prints it.\<close>

definition digit_char :: "nat \<Rightarrow> char" where
  "digit_char d = char_of (code_unit (CHR ''0'') + d)"

function string_of_nat :: "nat \<Rightarrow> string" where
  "string_of_nat n =
     (if 10 \<le> n then string_of_nat (n div 10) @ [digit_char (n mod 10)] else [digit_char n])"
  by pat_completeness auto
termination
  by (relation "measure id") auto

declare string_of_nat.simps [simp del]

datatype jsvalue = Undefined | Null | Boolean bool | Str jsstring

text \<open>\<open>String(value)\<close>.\<close>

fun ToString :: "jsvalue \<Rightarrow> jsstring" where
  "ToString Undefined = lit ''undefined''"
| "ToString Null = lit ''null''"
| "ToString (Boolean b) = (if b then lit ''true'' else lit ''false'')"
| "ToString (Str s) = s"

text \<open>\<open>s.replace(/c/g, r)\<close> for a pattern that is the single character \<open>c\<close> and a replacement without \<open>$\<close>.\<close>

definition replaceAll :: "jschar \<Rightarrow> jsstring \<Rightarrow> jsstring \<Rightarrow> jsstring" where
  "replaceAll c r s = concat (map (\<lambda>x. if x = c then r else [x]) s)"

datatype variant = Script | Module

text \<open>
  The script escapes through the DOM (\<^verbatim>\<open>src/popup.js\<close>, lines 203-207): \<open>div.textContent = text\<close>
  followed by \<open>div.innerHTML\<close>.  Setting \<open>textContent\<close> to \<open>null\<close> or \<open>undefined\<close> gives the empty
  text, any other value its string; reading \<open>innerHTML\<close> serialises the text node, which
  escapes \<open>&\<close>, U+00A0, \<open><\<close> and \<open>>\<close> and nothing else.
\<close>

definition dom_textContent :: "jsvalue \<Rightarrow> jsstring" where
  "dom_textContent text = (case text of Undefined \<Rightarrow> [] | Null \<Rightarrow> [] | _ \<Rightarrow> ToString text)"

definition dom_innerHTML :: "jsstring \<Rightarrow> jsstring" where
  "dom_innerHTML text =
     replaceAll (code_unit (CHR ''>'')) (lit ''&gt;'')
       (replaceAll (code_unit (CHR ''<'')) (lit ''&lt;'')
         (replaceAll 0xA0 (lit ''&nbsp;'')
           (replaceAll (code_unit (CHR ''&'')) (lit ''&amp;'') text)))"

text \<open>
  \<open>escapeHtml(text)\<close>.  The module (\<^verbatim>\<open>src/build/README.md\<close>, lines 609-620) coerces a value that
  is not a string with \<open>String\<close> and chains five replacements.
\<close>

definition escapeHtml :: "variant \<Rightarrow> jsvalue \<Rightarrow> jsstring" where
  "escapeHtml v text =
     (case v of
        Script \<Rightarrow> dom_innerHTML (dom_textContent text)
      | Module \<Rightarrow>
          replaceAll 0x27 (lit ''&#x27;'')
            (replaceAll 0x22 (lit ''&quot;'')
              (replaceAll (code_unit (CHR ''>'')) (lit ''&gt;'')
                (replaceAll (code_unit (CHR ''<'')) (lit ''&lt;'')
                  (replaceAll (code_unit (CHR ''&'')) (lit ''&amp;'')
                    (case text of Str s \<Rightarrow> s | _ \<Rightarrow> ToString text))))))"

text \<open>\<open>escapeRegExp(s)\<close>: \<open>s.replace(/[.*+?^${}()|[\]\\]/g, '\\$&')\<close> (module only, lines 494-496).\<close>

definition escapeRegExp :: "jsstring \<Rightarrow> jsstring" where
  "escapeRegExp s =
     concat (map (\<lambda>c. if c \<in> set (lit ''.*+?^${}()|[]'') \<or> c = 0x5C then [0x5C, c] else [c]) s)"

definition highlight_replacement :: jsstring where
  "highlight_replacement = lit ''<span class='' @ [0x22] @ lit ''highlight'' @ [0x22] @ lit ''>$1</span>''"

text \<open>
  \<open>highlightText(text, query)\<close> (\<^verbatim>\<open>src/popup.js\<close>, lines 182-192; \<^verbatim>\<open>src/build/README.md\<close>, lines
  580-594).  Only the module returns early on an empty text.  \<open>new RegExp\<close> throws on a
  pattern that is not well formed: \<open>Inl\<close>.  The pattern has the flag \<open>i\<close>, so matching asks
  the engine \<open>e\<close> for upper cases.
\<close>

definition highlightText :: "variant \<Rightarrow> engine \<Rightarrow> jsstring \<Rightarrow> jsstring \<Rightarrow> js_error + jsstring" where
  "highlightText v e text query =
     (if v = Module \<and> text = [] then Inr []
      else if query = [] then Inr (escapeHtml v (Str text))
      else
        (case RegExp (lit ''('' @ escapeHtml v (Str query) @ lit '')'') of
           Inl err \<Rightarrow> Inl err
         | Inr regex \<Rightarrow> Inr (replace_global e regex (escapeHtml v (Str text)) highlight_replacement)))"

section \<open>Tabs, the popup and the host\<close>

record raw_tab =
  raw_id :: int
  raw_title :: "jsstring option"
  raw_url :: "jsstring option"
  raw_favIconUrl :: "jsstring option"
  raw_windowId :: int
  raw_active :: bool
  raw_pinned :: bool

record tab =
  tab_id :: int
  title :: jsstring
  url :: jsstring
  favIconUrl :: "jsstring option"
  windowId :: int
  active :: bool
  pinned :: bool

text \<open>
  What \<open>tabsList.innerHTML = ...\<close> leaves in the list: one \<open>.tab-item\<close> element per rendered
  tab with the values \<open>createTabHTML\<close> interpolates, or the panel of \<open>showError\<close>.
  \<open>keyboard_active\<close> is the class \<open>keyboard-active\<close> of the element.
\<close>

record item =
  item_tabId :: int
  item_active :: bool
  item_favicon :: "jsstring option"
  item_title :: jsstring
  item_url :: jsstring
  keyboard_active :: bool

datatype content = Items "item list" | ErrorPanel string

datatype host_call =
    Tabs_query_all
  | Tabs_query_active
  | Tabs_remove int
  | Tabs_remove_all "int list"
  | Tabs_update int
  | Tabs_get int
  | Windows_update int
  | Window_close
  | Confirm

text \<open>
  How the host answers while one handler runs: a promise of \<open>chrome.tabs\<close> or
  \<open>chrome.windows\<close> resolves or rejects, \<open>confirm\<close> answers yes or no, \<open>new URL(url)\<close> gives
  the host name and the path or throws (\<open>None\<close>), and the engine converts case.
\<close>

record host =
  chrome_tabs_query_all :: "js_error + raw_tab list"
  chrome_tabs_query_active :: "js_error + raw_tab list"
  chrome_tabs_remove :: "js_error option"
  chrome_tabs_update :: "js_error option"
  chrome_tabs_get :: "js_error + raw_tab"
  chrome_windows_update :: "js_error option"
  confirm :: bool
  new_URL :: "jsstring \<Rightarrow> (jsstring \<times> jsstring) option"
  js_engine :: engine

text \<open>
  The fields of a \<open>TabSearcher\<close>, what its DOM elements show, and a log of the calls it made
  to the host and to \<open>console.error\<close>.
\<close>

record popup =
  tabs :: "tab list"
  filteredTabs :: "tab list"
  currentTabId :: "int option"
  exactMatch :: bool
  searchInput_value :: jsstring
  tabsList_content :: content
  tabsList_display :: string
  tabCountEl_text :: string
  matchCountEl_text :: string
  matchCountEl_display :: string
  noResultsEl_display :: string
  loadingEl_display :: string
  host_calls :: "host_call list"
  console_errors :: "(string \<times> js_error) list"

datatype completion = Returned | Thrown js_error

definition call :: "host_call \<Rightarrow> popup \<Rightarrow> popup" where
  "call c s = s\<lparr>host_calls := host_calls s @ [c]\<rparr>"

definition console_error :: "string \<Rightarrow> js_error \<Rightarrow> popup \<Rightarrow> popup" where
  "console_error msg err s = s\<lparr>console_errors := console_errors s @ [(msg, err)]\<rparr>"

definition showLoading :: "bool \<Rightarrow> popup \<Rightarrow> popup" where
  "showLoading show s =
     s\<lparr>loadingEl_display := (if show then ''flex'' else ''none''),
       tabsList_display := (if show then ''none'' else ''block'')\<rparr>"

definition showNoResults :: "bool \<Rightarrow> popup \<Rightarrow> popup" where
  "showNoResults show s =
     s\<lparr>noResultsEl_display := (if show then ''flex'' else ''none''),
       tabsList_display := (if show then ''none'' else ''block'')\<rparr>"

definition showError :: "string \<Rightarrow> popup \<Rightarrow> popup" where
  "showError message s = s\<lparr>tabsList_content := ErrorPanel message\<rparr>"

text \<open>\<open>formatUrl(url)\<close>; only the module returns early on an empty url.\<close>

definition formatUrl :: "variant \<Rightarrow> host \<Rightarrow> jsstring \<Rightarrow> jsstring" where
  "formatUrl v h u =
     (if v = Module \<and> u = [] then []
      else (case new_URL h u of Some (hostname, pathname) \<Rightarrow> hostname @ pathname | None \<Rightarrow> u))"

fun map_throwing :: "('a \<Rightarrow> js_error + 'b) \<Rightarrow> 'a list \<Rightarrow> js_error + 'b list" where
  "map_throwing f [] = Inr []"
| "map_throwing f (x # xs) =
     (case f x of
        Inl err \<Rightarrow> Inl err
      | Inr y \<Rightarrow> (case map_throwing f xs of Inl err \<Rightarrow> Inl err | Inr ys \<Rightarrow> Inr (y # ys)))"

fun filter_throwing :: "('a \<Rightarrow> js_error + bool) \<Rightarrow> 'a list \<Rightarrow> js_error + 'a list" where
  "filter_throwing f [] = Inr []"
| "filter_throwing f (x # xs) =
     (case f x of
        Inl err \<Rightarrow> Inl err
      | Inr keep \<Rightarrow>
          (case filter_throwing f xs of
             Inl err \<Rightarrow> Inl err
           | Inr ys \<Rightarrow> Inr (if keep then x # ys else ys)))"

definition createTabHTML :: "variant \<Rightarrow> host \<Rightarrow> popup \<Rightarrow> tab \<Rightarrow> js_error + item" where
  "createTabHTML v h s t =
     (let isActive = (Some (tab_id t) = currentTabId s);
          query = trim (toLowerCase (js_engine h) (searchInput_value s));
          shown_title = (if v = Module \<and> title t = [] then lit ''Untitled'' else title t)
      in case highlightText v (js_engine h) shown_title query of
           Inl err \<Rightarrow> Inl err
         | Inr highlightedTitle \<Rightarrow>
             (case highlightText v (js_engine h) (formatUrl v h (url t)) query of
                Inl err \<Rightarrow> Inl err
              | Inr highlightedUrl \<Rightarrow>
                  Inr \<lparr>item_tabId = tab_id t, item_active = isActive,
                       item_favicon = (case favIconUrl t of
                                         None \<Rightarrow> None
                                       | Some f \<Rightarrow> if f = [] then None else Some f),
                       item_title = highlightedTitle, item_url = highlightedUrl,
                       keyboard_active = False\<rparr>))"

definition plural :: "nat \<Rightarrow> string \<Rightarrow> string \<Rightarrow> string" where
  "plural n word ending = string_of_nat n @ '' '' @ word @ (if n \<noteq> 1 then ending else [])"

definition updateStats :: "variant \<Rightarrow> popup \<Rightarrow> popup" where
  "updateStats v s =
     (let counted = (if v = Module then length (filteredTabs s) else length (tabs s));
          s1 = s\<lparr>tabCountEl_text := plural counted ''tab'' ''s''\<rparr>
      in if trim (searchInput_value s1) \<noteq> [] \<and> length (filteredTabs s1) \<noteq> length (tabs s1)
         then s1\<lparr>matchCountEl_text := plural (length (filteredTabs s1)) ''match'' ''es'',
                 matchCountEl_display := ''inline''\<rparr>
         else s1\<lparr>matchCountEl_display := ''none''\<rparr>)"

definition renderTabs :: "variant \<Rightarrow> host \<Rightarrow> popup \<Rightarrow> completion \<times> popup" where
  "renderTabs v h s =
     (if filteredTabs s = [] \<and> trim (searchInput_value s) \<noteq> [] then (Returned, showNoResults True s)
      else
        (case map_throwing (createTabHTML v h (showNoResults False s)) (filteredTabs s) of
           Inl err \<Rightarrow> (Thrown err, showNoResults False s)
         | Inr items \<Rightarrow> (Returned, (showNoResults False s)\<lparr>tabsList_content := Items items\<rparr>)))"

definition updateUI :: "variant \<Rightarrow> host \<Rightarrow> popup \<Rightarrow> completion \<times> popup" where
  "updateUI v h s = renderTabs v h (updateStats v s)"

section \<open>The handlers\<close>

text \<open>\<open>loadTabs()\<close> (\<^verbatim>\<open>src/popup.js\<close>, lines 53-85; \<^verbatim>\<open>src/build/README.md\<close>, lines 431-463).\<close>

definition tab_of_raw :: "raw_tab \<Rightarrow> tab" where
  "tab_of_raw r =
     \<lparr>tab_id = raw_id r,
      title = (case raw_title r of None \<Rightarrow> lit ''Untitled'' | Some t \<Rightarrow> if t = [] then lit ''Untitled'' else t),
      url = (case raw_url r of None \<Rightarrow> [] | Some u \<Rightarrow> u),
      favIconUrl = raw_favIconUrl r,
      windowId = raw_windowId r,
      active = raw_active r,
      pinned = raw_pinned r\<rparr>"

text \<open>
  \<open>activeTab?.id\<close> in the script, \<open>activeTab?.id || null\<close> in the module; \<open>None\<close> stands for both
  \<open>undefined\<close> and \<open>null\<close>.
\<close>

definition active_id :: "variant \<Rightarrow> raw_tab list \<Rightarrow> int option" where
  "active_id v result =
     (case result of
        [] \<Rightarrow> None
      | activeTab # _ \<Rightarrow> if v = Module \<and> raw_id activeTab = 0 then None else Some (raw_id activeTab))"

text \<open>The \<open>try\<close> block of \<open>loadTabs\<close>.\<close>

definition loadTabs_try :: "variant \<Rightarrow> host \<Rightarrow> popup \<Rightarrow> completion \<times> popup" where
  "loadTabs_try v h s =
     (case chrome_tabs_query_all h of
        Inl err \<Rightarrow> (Thrown err, call Tabs_query_all s)
      | Inr all_tabs \<Rightarrow>
          (case chrome_tabs_query_active h of
             Inl err \<Rightarrow> (Thrown err, call Tabs_query_active (call Tabs_query_all s))
           | Inr active_tabs \<Rightarrow>
               updateUI v h
                 ((call Tabs_query_active (call Tabs_query_all s))
                    \<lparr>tabs := map tab_of_raw all_tabs,
                     filteredTabs := map tab_of_raw all_tabs,
                     currentTabId := active_id v active_tabs\<rparr>)))"

definition loadTabs :: "variant \<Rightarrow> host \<Rightarrow> popup \<Rightarrow> completion \<times> popup" where
  "loadTabs v h s =
     (case loadTabs_try v h (showLoading True s) of
        (Returned, s') \<Rightarrow> (Returned, showLoading False s')
      | (Thrown err, s') \<Rightarrow>
          (Returned,
           showLoading False (showError ''Failed to load tabs'' (console_error ''Error loading tabs:'' err s'))))"

text \<open>\<open>filterTabs()\<close> (\<^verbatim>\<open>src/popup.js\<close>, lines 87-101; \<^verbatim>\<open>src/build/README.md\<close>, lines 465-487).\<close>

definition word_pattern :: "jsstring \<Rightarrow> jsstring" where
  "word_pattern query = [0x5C, code_unit (CHR ''b'')] @ escapeRegExp query @ [0x5C, code_unit (CHR ''b'')]"

definition tab_matches :: "variant \<Rightarrow> engine \<Rightarrow> bool \<Rightarrow> jsstring \<Rightarrow> tab \<Rightarrow> js_error + bool" where
  "tab_matches v e exact query t =
     (if v = Module \<and> exact then
        (case RegExp (word_pattern query) of
           Inl err \<Rightarrow> Inl err
         | Inr wordRegex \<Rightarrow> Inr (test e wordRegex (title t) \<or> test e wordRegex (url t)))
      else Inr (js_includes (toLowerCase e (title t)) query \<or> js_includes (toLowerCase e (url t)) query))"

definition filterTabs :: "variant \<Rightarrow> host \<Rightarrow> popup \<Rightarrow> completion \<times> popup" where
  "filterTabs v h s =
     (let query = trim (toLowerCase (js_engine h) (searchInput_value s))
      in if query = [] then updateUI v h (s\<lparr>filteredTabs := tabs s\<rparr>)
         else
           (case filter_throwing (tab_matches v (js_engine h) (exactMatch s) query) (tabs s) of
              Inl err \<Rightarrow> (Thrown err, s)
            | Inr matching \<Rightarrow> updateUI v h (s\<lparr>filteredTabs := matching\<rparr>)))"

text \<open>\<open>switchToTab(tabId)\<close>: the \<open>try\<close> block, then the handler with its \<open>catch\<close>.\<close>

definition switchToTab_try :: "host \<Rightarrow> int \<Rightarrow> popup \<Rightarrow> completion \<times> popup" where
  "switchToTab_try h tabId s =
     (case chrome_tabs_update h of
        Some err \<Rightarrow> (Thrown err, call (Tabs_update tabId) s)
      | None \<Rightarrow>
          (case chrome_tabs_get h of
             Inl err \<Rightarrow> (Thrown err, call (Tabs_get tabId) (call (Tabs_update tabId) s))
           | Inr t \<Rightarrow>
               (case chrome_windows_update h of
                  Some err \<Rightarrow>
                    (Thrown err,
                     call (Windows_update (raw_windowId t)) (call (Tabs_get tabId) (call (Tabs_update tabId) s)))
                | None \<Rightarrow>
                    (Returned,
                     call Window_close
                       (call (Windows_update (raw_windowId t))
                         (call (Tabs_get tabId) (call (Tabs_update tabId) s)))))))"

definition switchToTab :: "host \<Rightarrow> int \<Rightarrow> popup \<Rightarrow> completion \<times> popup" where
  "switchToTab h tabId s =
     (case switchToTab_try h tabId s of
        (Returned, s') \<Rightarrow> (Returned, s')
      | (Thrown err, s') \<Rightarrow> (Returned, console_error ''Error switching to tab:'' err s'))"

text \<open>\<open>closeTab(tabId)\<close> (\<^verbatim>\<open>src/popup.js\<close>, lines 223-235; \<^verbatim>\<open>src/build/README.md\<close>, lines 636-648).\<close>

definition closeTab_try :: "variant \<Rightarrow> host \<Rightarrow> int \<Rightarrow> popup \<Rightarrow> completion \<times> popup" where
  "closeTab_try v h tabId s =
     (case chrome_tabs_remove h of
        Some err \<Rightarrow> (Thrown err, call (Tabs_remove tabId) s)
      | None \<Rightarrow>
          updateUI v h
            ((call (Tabs_remove tabId) s)
               \<lparr>tabs := filter (\<lambda>t. tab_id t \<noteq> tabId) (tabs s),
                filteredTabs := filter (\<lambda>t. tab_id t \<noteq> tabId) (filteredTabs s)\<rparr>))"

definition closeTab :: "variant \<Rightarrow> host \<Rightarrow> int \<Rightarrow> popup \<Rightarrow> completion \<times> popup" where
  "closeTab v h tabId s =
     (case closeTab_try v h tabId s of
        (Returned, s') \<Rightarrow> (Returned, s')
      | (Thrown err, s') \<Rightarrow> (Returned, console_error ''Error closing tab:'' err s'))"

text \<open>
  \<open>closeOtherTabs()\<close> (\<^verbatim>\<open>src/popup.js\<close>, lines 237-255; \<^verbatim>\<open>src/build/README.md\<close>, lines 650-668).
  Only the module asks for \<open>this.currentTabId !== null\<close> before it calls the host.
\<close>

definition tabsToClose :: "popup \<Rightarrow> int list" where
  "tabsToClose s = map tab_id (filter (\<lambda>t. Some (tab_id t) \<noteq> currentTabId s \<and> \<not> pinned t) (tabs s))"

definition closeOtherTabs :: "variant \<Rightarrow> host \<Rightarrow> popup \<Rightarrow> completion \<times> popup" where
  "closeOtherTabs v h s =
     (if \<not> confirm h then (Returned, call Confirm s)
      else if tabsToClose s \<noteq> [] \<and> (if v = Module then currentTabId s \<noteq> None else True) then
        (case chrome_tabs_remove h of
           Some err \<Rightarrow>
             (Returned,
              console_error ''Error closing other tabs:'' err
                (call (Tabs_remove_all (tabsToClose s)) (call Confirm s)))
         | None \<Rightarrow> loadTabs v h (call (Tabs_remove_all (tabsToClose s)) (call Confirm s)))
      else (Returned, call Confirm s))"

text \<open>\<open>handleKeyNavigation(e)\<close> and \<open>highlightTab(tabItems, index)\<close> (\<^verbatim>\<open>src/popup.js\<close>, lines 257-303).\<close>

definition tabItems :: "popup \<Rightarrow> item list" where
  "tabItems s = (case tabsList_content s of Items its \<Rightarrow> its | ErrorPanel m \<Rightarrow> [])"

text \<open>The index of the first element that satisfies \<open>P\<close>, or \<open>-1\<close>.\<close>

fun index_of_first :: "('a \<Rightarrow> bool) \<Rightarrow> 'a list \<Rightarrow> int" where
  "index_of_first P [] = - 1"
| "index_of_first P (x # xs) =
     (if P x then 0 else if index_of_first P xs < 0 then - 1 else index_of_first P xs + 1)"

definition currentIndex :: "popup \<Rightarrow> int" where
  "currentIndex s = index_of_first keyboard_active (tabItems s)"

definition highlightTab :: "int \<Rightarrow> popup \<Rightarrow> popup" where
  "highlightTab index s =
     (case tabsList_content s of
        ErrorPanel m \<Rightarrow> s
      | Items its \<Rightarrow>
          s\<lparr>tabsList_content :=
              Items (if 0 \<le> index \<and> index < int (length its)
                     then (map (\<lambda>i. i\<lparr>keyboard_active := False\<rparr>) its)
                            [nat index := (its ! nat index)\<lparr>keyboard_active := True\<rparr>]
                     else map (\<lambda>i. i\<lparr>keyboard_active := False\<rparr>) its)\<rparr>)"

definition handleKeyNavigation :: "host \<Rightarrow> string \<Rightarrow> popup \<Rightarrow> completion \<times> popup" where
  "handleKeyNavigation h key s =
     (if key = ''ArrowDown'' then
        (Returned, highlightTab (min (currentIndex s + 1) (int (length (tabItems s)) - 1)) s)
      else if key = ''ArrowUp'' then
        (Returned, highlightTab (max (currentIndex s - 1) 0) s)
      else if key = ''Enter'' then
        (case List.find keyboard_active (tabItems s) of
           Some activeItem \<Rightarrow> switchToTab h (item_tabId activeItem) s
         | None \<Rightarrow>
             (case tabItems s of
                [] \<Rightarrow> (Returned, s)
              | first_item # _ \<Rightarrow> switchToTab h (item_tabId first_item) s))
      else if key = ''Escape'' then (Returned, call Window_close s)
      else (Returned, s))"

text \<open>The popup after one key press.\<close>

definition press :: "host \<Rightarrow> string \<Rightarrow> popup \<Rightarrow> popup" where
  "press h key s = snd (handleKeyNavigation h key s)"

section \<open>Sample inputs\<close>

text \<open>
  A sample engine, for the examples.  It converts case as Unicode does on strings of the
  code units U+0000 to U+00FF and U+0391 to U+03C9 (Greek), and leaves every other code
  unit as it is.  A capital sigma (U+03A3) becomes the final small sigma (U+03C2) after a
  cased letter and not before one, code units that case ignores being skipped on both
  sides; the upper case of U+00DF is \<open>SS\<close>.
\<close>

definition sample_cased :: "jschar \<Rightarrow> bool" where
  "sample_cased c =
     ((0x41 \<le> c \<and> c \<le> 0x5A) \<or> (0x61 \<le> c \<and> c \<le> 0x7A) \<or> c \<in> {0xAA, 0xB5, 0xBA}
      \<or> (0xC0 \<le> c \<and> c \<le> 0xFF \<and> c \<notin> {0xD7, 0xF7})
      \<or> (0x391 \<le> c \<and> c \<le> 0x3C9 \<and> c \<noteq> 0x3A2))"

definition sample_case_ignorable :: "jschar \<Rightarrow> bool" where
  "sample_case_ignorable c = (c \<in> {0x27, 0x2E, 0x3A, 0x5E, 0x60, 0xA8, 0xAD, 0xAF, 0xB4, 0xB7, 0xB8})"

definition sample_lower_unit :: "jschar \<Rightarrow> jschar" where
  "sample_lower_unit c =
     (if (0x41 \<le> c \<and> c \<le> 0x5A) \<or> (0xC0 \<le> c \<and> c \<le> 0xDE \<and> c \<noteq> 0xD7)
         \<or> (0x391 \<le> c \<and> c \<le> 0x3AB \<and> c \<noteq> 0x3A2)
      then c + 32 else c)"

text \<open>\<open>before\<close> holds the code units before the sigma, the nearest first.\<close>

definition final_sigma :: "jsstring \<Rightarrow> jsstring \<Rightarrow> bool" where
  "final_sigma before after =
     ((case dropWhile sample_case_ignorable before of c # _ \<Rightarrow> sample_cased c | [] \<Rightarrow> False)
      \<and> \<not> (case dropWhile sample_case_ignorable after of c # _ \<Rightarrow> sample_cased c | [] \<Rightarrow> False))"

fun sample_lower :: "jsstring \<Rightarrow> jsstring \<Rightarrow> jsstring" where
  "sample_lower before [] = []"
| "sample_lower before (c # cs) =
     (if c = 0x3A3 \<and> final_sigma before cs then 0x3C2 else sample_lower_unit c)
       # sample_lower (c # before) cs"

definition sample_upper_units :: "jschar \<Rightarrow> jsstring" where
  "sample_upper_units c =
     (if (0x61 \<le> c \<and> c \<le> 0x7A) \<or> (0xE0 \<le> c \<and> c \<le> 0xFE \<and> c \<noteq> 0xF7)
         \<or> (0x3B1 \<le> c \<and> c \<le> 0x3C9 \<and> c \<noteq> 0x3C2)
      then [c - 32]
      else if c = 0xDF then [0x53, 0x53]
      else if c = 0xFF then [0x178]
      else if c = 0xB5 then [0x39C]
      else if c = 0x3C2 then [0x3A3]
      else if c = 0x3AC then [0x386]
      else if 0x3AD \<le> c \<and> c \<le> 0x3AF then [c - 37]
      else if c = 0x3B0 then [0x3A5, 0x308, 0x301]
      else [c])"

definition sample_engine :: engine where
  "sample_engine =
     \<lparr>toLowerCase = sample_lower [], toUpperCase = (\<lambda>s. concat (map sample_upper_units s))\<rparr>"

text \<open>A host whose calls all succeed and whose user confirms, and one whose calls all fail.\<close>

definition host_ok :: host where
  "host_ok =
     \<lparr>chrome_tabs_query_all = Inr [], chrome_tabs_query_active = Inr [], chrome_tabs_remove = None,
      chrome_tabs_update = None,
      chrome_tabs_get = Inr \<lparr>raw_id = 1, raw_title = None, raw_url = None, raw_favIconUrl = None,
                             raw_windowId = 1, raw_active = True, raw_pinned = False\<rparr>,
      chrome_windows_update = None, confirm = True, new_URL = (\<lambda>u. None),
      js_engine = sample_engine\<rparr>"

definition host_failing :: host where
  "host_failing =
     \<lparr>chrome_tabs_query_all = Inl (HostError ''query''), chrome_tabs_query_active = Inl (HostError ''query''),
      chrome_tabs_remove = Some (HostError ''remove''), chrome_tabs_update = Some (HostError ''update''),
      chrome_tabs_get = Inl (HostError ''get''), chrome_windows_update = Some (HostError ''focus''),
      confirm = True, new_URL = (\<lambda>u. None), js_engine = sample_engine\<rparr>"

definition sample_tab :: "int \<Rightarrow> jsstring \<Rightarrow> bool \<Rightarrow> tab" where
  "sample_tab n name pin =
     \<lparr>tab_id = n, title = name, url = lit ''https://example.com/'' @ name, favIconUrl = None,
      windowId = 1, active = False, pinned = pin\<rparr>"

definition sample_item :: "int \<Rightarrow> item" where
  "sample_item n =
     \<lparr>item_tabId = n, item_active = False, item_favicon = None, item_title = lit ''t'',
      item_url = lit ''u'', keyboard_active = False\<rparr>"

text \<open>A popup that lists the given tabs, with no tab known as current and nothing selected.\<close>

definition sample_popup :: "tab list \<Rightarrow> popup" where
  "sample_popup ts =
     \<lparr>tabs = ts, filteredTabs = ts, currentTabId = None, exactMatch = False, searchInput_value = [],
      tabsList_content = Items (map (\<lambda>t. sample_item (tab_id t)) ts), tabsList_display = ''block'',
      tabCountEl_text = [], matchCountEl_text = [], matchCountEl_display = ''none'',
      noResultsEl_display = ''none'', loadingEl_display = ''none'', host_calls = [], console_errors = []\<rparr>"

section \<open>Notions the specification uses\<close>

text \<open>The entity the specification gives for each of the five characters.\<close>

definition html_entity :: "jschar \<Rightarrow> jsstring" where
  "html_entity c =
     (if c = code_unit (CHR ''&'') then lit ''&amp;''
      else if c = code_unit (CHR ''<'') then lit ''&lt;''
      else if c = code_unit (CHR ''>'') then lit ''&gt;''
      else if c = 0x22 then lit ''&quot;''
      else if c = 0x27 then lit ''&#x27;''
      else [c])"

text \<open>A call that asks the host to close tabs.\<close>

definition is_removal :: "host_call \<Rightarrow> bool" where
  "is_removal c = (case c of Tabs_remove n \<Rightarrow> True | Tabs_remove_all ns \<Rightarrow> True | _ \<Rightarrow> False)"

text \<open>
  The lower case of one code unit, when it is one code unit.  Two code units are the same
  letter when they differ in case only; \<open>q\<close> occurs in \<open>t\<close> at \<open>i\<close> when the code units of \<open>t\<close>
  from \<open>i\<close> on are, letter for letter, those of \<open>q\<close>; \<open>t\<close> contains \<open>q\<close> case-insensitively
  when \<open>q\<close> occurs somewhere.
\<close>

definition fold_unit :: "engine \<Rightarrow> jschar \<Rightarrow> jschar" where
  "fold_unit e c = (case toLowerCase e [c] of [d] \<Rightarrow> d | _ \<Rightarrow> c)"

definition same_letter :: "engine \<Rightarrow> jschar \<Rightarrow> jschar \<Rightarrow> bool" where
  "same_letter e a b = (fold_unit e a = fold_unit e b)"

definition occurs_at :: "engine \<Rightarrow> jsstring \<Rightarrow> jsstring \<Rightarrow> nat \<Rightarrow> bool" where
  "occurs_at e q t i =
     (i + length q \<le> length t \<and> (\<forall>j \<in> {0 ..< length q}. same_letter e (t ! (i + j)) (q ! j)))"

definition contains_ci :: "engine \<Rightarrow> jsstring \<Rightarrow> jsstring \<Rightarrow> bool" where
  "contains_ci e t q = (\<exists>i \<in> set [0 ..< Suc (length t)]. occurs_at e q t i)"


text \<open>
  \<open>t\<close> contains \<open>q\<close> as a whole word: an occurrence with no word character right before it
  and none right after it.
\<close>

definition whole_word_at :: "engine \<Rightarrow> jsstring \<Rightarrow> jsstring \<Rightarrow> nat \<Rightarrow> bool" where
  "whole_word_at e q t i =
     (occurs_at e q t i
      \<and> (i = 0 \<or> \<not> isWordChar (t ! (i - 1)))
      \<and> (i + length q = length t \<or> \<not> isWordChar (t ! (i + length q))))"

definition contains_word :: "engine \<Rightarrow> jsstring \<Rightarrow> jsstring \<Rightarrow> bool" where
  "contains_word e t q = (\<exists>i \<in> set [0 ..< Suc (length t)]. whole_word_at e q t i)"

section \<open>What the handlers leave unchanged\<close>

lemma updateStats_frame [simp]:
  "tabs (updateStats v s) = tabs s"
  "filteredTabs (updateStats v s) = filteredTabs s"
  "currentTabId (updateStats v s) = currentTabId s"
  "host_calls (updateStats v s) = host_calls s"
  "console_errors (updateStats v s) = console_errors s"
  "loadingEl_display (updateStats v s) = loadingEl_display s"
  "searchInput_value (updateStats v s) = searchInput_value s"
  by (simp_all add: updateStats_def Let_def)

lemma renderTabs_frame [simp]:
  "tabs (snd (renderTabs v h s)) = tabs s"
  "filteredTabs (snd (renderTabs v h s)) = filteredTabs s"
  "currentTabId (snd (renderTabs v h s)) = currentTabId s"
  "host_calls (snd (renderTabs v h s)) = host_calls s"
  "console_errors (snd (renderTabs v h s)) = console_errors s"
  "loadingEl_display (snd (renderTabs v h s)) = loadingEl_display s"
  "searchInput_value (snd (renderTabs v h s)) = searchInput_value s"
  by (simp_all add: renderTabs_def showNoResults_def split: sum.splits)

lemma updateUI_frame [simp]:
  "tabs (snd (updateUI v h s)) = tabs s"
  "filteredTabs (snd (updateUI v h s)) = filteredTabs s"
  "currentTabId (snd (updateUI v h s)) = currentTabId s"
  "host_calls (snd (updateUI v h s)) = host_calls s"
  "console_errors (snd (updateUI v h s)) = console_errors s"
  "loadingEl_display (snd (updateUI v h s)) = loadingEl_display s"
  "searchInput_value (snd (updateUI v h s)) = searchInput_value s"
  by (simp_all add: updateUI_def)

lemma call_frame [simp]:
  "tabs (call c s) = tabs s"
  "filteredTabs (call c s) = filteredTabs s"
  "currentTabId (call c s) = currentTabId s"
  "host_calls (call c s) = host_calls s @ [c]"
  "console_errors (call c s) = console_errors s"
  "loadingEl_display (call c s) = loadingEl_display s"
  "searchInput_value (call c s) = searchInput_value s"
  by (simp_all add: call_def)

lemma console_error_frame [simp]:
  "tabs (console_error m e s) = tabs s"
  "filteredTabs (console_error m e s) = filteredTabs s"
  "currentTabId (console_error m e s) = currentTabId s"
  "host_calls (console_error m e s) = host_calls s"
  "loadingEl_display (console_error m e s) = loadingEl_display s"
  by (simp_all add: console_error_def)

lemma showLoading_frame [simp]:
  "tabs (showLoading b s) = tabs s"
  "filteredTabs (showLoading b s) = filteredTabs s"
  "currentTabId (showLoading b s) = currentTabId s"
  "host_calls (showLoading b s) = host_calls s"
  "console_errors (showLoading b s) = console_errors s"
  "loadingEl_display (showLoading b s) = (if b then ''flex'' else ''none'')"
  by (simp_all add: showLoading_def)

lemma showError_frame [simp]:
  "tabs (showError m s) = tabs s"
  "filteredTabs (showError m s) = filteredTabs s"
  "currentTabId (showError m s) = currentTabId s"
  "host_calls (showError m s) = host_calls s"
  "console_errors (showError m s) = console_errors s"
  "loadingEl_display (showError m s) = loadingEl_display s"
  by (simp_all add: showError_def)

section \<open>Closing one tab\<close>

text \<open>
  C5.  \<open>closeTab(id)\<close> never throws.  When the host removes the tab, the tabs with that id are
  gone from \<open>tabs\<close> and from \<open>filteredTabs\<close> and the other tabs keep their order; when the host
  rejects, both lists are what they were.  This holds for the script and for the module.
\<close>

theorem closeTab_lists:
  "fst (closeTab v h tabId s) = Returned
   \<and> tabs (snd (closeTab v h tabId s)) =
        (if chrome_tabs_remove h = None then filter (\<lambda>t. tab_id t \<noteq> tabId) (tabs s) else tabs s)
   \<and> filteredTabs (snd (closeTab v h tabId s)) =
        (if chrome_tabs_remove h = None then filter (\<lambda>t. tab_id t \<noteq> tabId) (filteredTabs s)
         else filteredTabs s)"
proof (cases "chrome_tabs_remove h")
  case None
  obtain r s' where u: "updateUI v h ((call (Tabs_remove tabId) s)
               \<lparr>tabs := filter (\<lambda>t. tab_id t \<noteq> tabId) (tabs s),
                filteredTabs := filter (\<lambda>t. tab_id t \<noteq> tabId) (filteredTabs s)\<rparr>) = (r, s')"
    by (cases "updateUI v h ((call (Tabs_remove tabId) s)
               \<lparr>tabs := filter (\<lambda>t. tab_id t \<noteq> tabId) (tabs s),
                filteredTabs := filter (\<lambda>t. tab_id t \<noteq> tabId) (filteredTabs s)\<rparr>)")
  have "tabs s' = filter (\<lambda>t. tab_id t \<noteq> tabId) (tabs s)"
    and "filteredTabs s' = filter (\<lambda>t. tab_id t \<noteq> tabId) (filteredTabs s)"
    using updateUI_frame(1,2) [of v h "(call (Tabs_remove tabId) s)
               \<lparr>tabs := filter (\<lambda>t. tab_id t \<noteq> tabId) (tabs s),
                filteredTabs := filter (\<lambda>t. tab_id t \<noteq> tabId) (filteredTabs s)\<rparr>"] u by simp_all
  with None u show ?thesis
    by (cases r) (simp_all add: closeTab_def closeTab_try_def)
next
  case (Some err)
  then show ?thesis by (simp add: closeTab_def closeTab_try_def)
qed

theorem closeTab_lists_witness:
  "tabs (snd (closeTab Module host_ok 2
      (sample_popup [sample_tab 1 (lit ''a'') False, sample_tab 2 (lit ''b'') False, sample_tab 3 (lit ''c'') False])))
     = [sample_tab 1 (lit ''a'') False, sample_tab 3 (lit ''c'') False]
   \<and> tabs (snd (closeTab Module host_failing 2
      (sample_popup [sample_tab 1 (lit ''a'') False, sample_tab 2 (lit ''b'') False, sample_tab 3 (lit ''c'') False])))
     = [sample_tab 1 (lit ''a'') False, sample_tab 2 (lit ''b'') False, sample_tab 3 (lit ''c'') False]"
proof -
  let ?s = "sample_popup [sample_tab 1 (lit ''a'') False, sample_tab 2 (lit ''b'') False, sample_tab 3 (lit ''c'') False]"
  have ok: "chrome_tabs_remove host_ok = None" by (simp add: host_ok_def)
  have failing: "chrome_tabs_remove host_failing \<noteq> None" by (simp add: host_failing_def)
  have ts: "tabs ?s = [sample_tab 1 (lit ''a'') False, sample_tab 2 (lit ''b'') False, sample_tab 3 (lit ''c'') False]"
    by (simp add: sample_popup_def)
  have "tabs (snd (closeTab Module host_ok 2 ?s)) = filter (\<lambda>t. tab_id t \<noteq> 2) (tabs ?s)"
    using closeTab_lists [of Module host_ok 2 ?s] ok by simp
  moreover have "filter (\<lambda>t. tab_id t \<noteq> 2) (tabs ?s) = [sample_tab 1 (lit ''a'') False, sample_tab 3 (lit ''c'') False]"
    by (simp add: sample_popup_def sample_tab_def)
  moreover have "tabs (snd (closeTab Module host_failing 2 ?s)) = tabs ?s"
    using closeTab_lists [of Module host_failing 2 ?s] failing by simp
  ultimately show ?thesis using ts by simp
qed

section \<open>Refreshing\<close>

text \<open>
  C6.  \<open>loadTabs()\<close> never throws and always ends with the loading indicator hidden.  When
  either query of the host rejects, \<open>tabs\<close> and \<open>filteredTabs\<close> are what they were before the
  call; when both resolve, both lists are the tabs the host returned.  This holds for the
  script and for the module.
\<close>

theorem loadTabs_failure:
  "fst (loadTabs v h s) = Returned
   \<and> loadingEl_display (snd (loadTabs v h s)) = ''none''
   \<and> tabs (snd (loadTabs v h s)) =
        (case (chrome_tabs_query_all h, chrome_tabs_query_active h) of
           (Inr all_tabs, Inr active_tabs) \<Rightarrow> map tab_of_raw all_tabs
         | _ \<Rightarrow> tabs s)
   \<and> filteredTabs (snd (loadTabs v h s)) =
        (case (chrome_tabs_query_all h, chrome_tabs_query_active h) of
           (Inr all_tabs, Inr active_tabs) \<Rightarrow> map tab_of_raw all_tabs
         | _ \<Rightarrow> filteredTabs s)"
proof -
  obtain r s' where t: "loadTabs_try v h (showLoading True s) = (r, s')"
    by (cases "loadTabs_try v h (showLoading True s)")
  have lists: "tabs s' = (case (chrome_tabs_query_all h, chrome_tabs_query_active h) of
           (Inr all_tabs, Inr active_tabs) \<Rightarrow> map tab_of_raw all_tabs
         | _ \<Rightarrow> tabs s)"
     "filteredTabs s' = (case (chrome_tabs_query_all h, chrome_tabs_query_active h) of
           (Inr all_tabs, Inr active_tabs) \<Rightarrow> map tab_of_raw all_tabs
         | _ \<Rightarrow> filteredTabs s)"
    using t [symmetric]
    by (auto simp: loadTabs_try_def split: sum.splits dest: arg_cong [where f = snd])
  show ?thesis
    using t lists by (cases r) (simp_all add: loadTabs_def)
qed

theorem loadTabs_failure_witness:
  "fst (loadTabs Module host_failing (sample_popup [sample_tab 1 (lit ''a'') False])) = Returned
   \<and> loadingEl_display (snd (loadTabs Module host_failing (sample_popup [sample_tab 1 (lit ''a'') False]))) = ''none''
   \<and> tabs (snd (loadTabs Module host_failing (sample_popup [sample_tab 1 (lit ''a'') False])))
       = [sample_tab 1 (lit ''a'') False]
   \<and> filteredTabs (snd (loadTabs Module host_failing (sample_popup [sample_tab 1 (lit ''a'') False])))
       = [sample_tab 1 (lit ''a'') False]"
proof -
  have q: "chrome_tabs_query_all host_failing = Inl (HostError ''query'')"
    by (simp add: host_failing_def)
  have ts: "tabs (sample_popup [sample_tab 1 (lit ''a'') False]) = [sample_tab 1 (lit ''a'') False]"
    "filteredTabs (sample_popup [sample_tab 1 (lit ''a'') False]) = [sample_tab 1 (lit ''a'') False]"
    by (simp_all add: sample_popup_def)
  from loadTabs_failure [of Module host_failing "sample_popup [sample_tab 1 (lit ''a'') False]"] q ts
  show ?thesis by simp
qed

section \<open>Keyboard navigation\<close>

lemma index_of_first_bounds: "- 1 \<le> index_of_first P xs \<and> index_of_first P xs < int (length xs)"
  by (induction xs) auto

lemma index_of_first_none: "(\<forall>x \<in> set xs. \<not> P x) \<Longrightarrow> index_of_first P xs = - 1"
  by (induction xs) auto

lemma index_of_first_marked:
  "k < length xs \<Longrightarrow>
   index_of_first keyboard_active
     ((map (\<lambda>i. i\<lparr>keyboard_active := False\<rparr>) xs)[k := (xs ! k)\<lparr>keyboard_active := True\<rparr>]) = int k"
proof (induction xs arbitrary: k)
  case Nil
  then show ?case by simp
next
  case (Cons x xs)
  show ?case
  proof (cases k)
    case 0
    then show ?thesis by simp
  next
    case (Suc j)
    with Cons.prems have "j < length xs" by simp
    from Cons.IH [OF this] Suc show ?thesis by simp
  qed
qed

lemma tabItems_highlightTab:
  "tabItems (highlightTab k s) =
     (if 0 \<le> k \<and> k < int (length (tabItems s))
      then (map (\<lambda>i. i\<lparr>keyboard_active := False\<rparr>) (tabItems s))
             [nat k := (tabItems s ! nat k)\<lparr>keyboard_active := True\<rparr>]
      else map (\<lambda>i. i\<lparr>keyboard_active := False\<rparr>) (tabItems s))"
  by (cases "tabsList_content s") (simp_all add: tabItems_def highlightTab_def)

lemma currentIndex_highlightTab:
  "currentIndex (highlightTab k s) = (if 0 \<le> k \<and> k < int (length (tabItems s)) then k else - 1)"
proof (cases "0 \<le> k \<and> k < int (length (tabItems s))")
  case True
  then have "nat k < length (tabItems s)" by linarith
  from index_of_first_marked [OF this] True show ?thesis
    by (simp add: currentIndex_def tabItems_highlightTab)
next
  case False
  have "index_of_first keyboard_active (map (\<lambda>i. i\<lparr>keyboard_active := False\<rparr>) (tabItems s)) = - 1"
    by (rule index_of_first_none) simp
  moreover have "tabItems (highlightTab k s) = map (\<lambda>i. i\<lparr>keyboard_active := False\<rparr>) (tabItems s)"
    using False by (auto simp: tabItems_highlightTab)
  ultimately show ?thesis
    using False by (auto simp: currentIndex_def)
qed

lemma length_tabItems_highlightTab [simp]: "length (tabItems (highlightTab k s)) = length (tabItems s)"
  by (simp add: tabItems_highlightTab)

lemma currentIndex_range: "- 1 \<le> currentIndex s \<and> currentIndex s < int (length (tabItems s))"
  unfolding currentIndex_def by (rule index_of_first_bounds)

lemma press_ArrowDown:
  "tabItems s \<noteq> [] \<Longrightarrow>
   currentIndex (press h ''ArrowDown'' s) = min (currentIndex s + 1) (int (length (tabItems s)) - 1)"
  using currentIndex_range [of s]
  by (auto simp: press_def handleKeyNavigation_def currentIndex_highlightTab)

lemma press_ArrowUp:
  "tabItems s \<noteq> [] \<Longrightarrow> currentIndex (press h ''ArrowUp'' s) = max (currentIndex s - 1) 0"
  using currentIndex_range [of s]
  by (auto simp: press_def handleKeyNavigation_def currentIndex_highlightTab)

lemma press_length [simp]: "length (tabItems (press h ''ArrowDown'' s)) = length (tabItems s)"
  by (simp add: press_def handleKeyNavigation_def)

lemma presses_length [simp]: "length (tabItems ((press h ''ArrowDown'' ^^ n) s)) = length (tabItems s)"
  by (induction n) simp_all

lemma presses_ArrowDown:
  assumes "tabItems s \<noteq> []" and "currentIndex s = - 1"
  shows "currentIndex ((press h ''ArrowDown'' ^^ Suc n) s) = min (int n) (int (length (tabItems s)) - 1)"
proof (induction n)
  case 0
  from assms show ?case using press_ArrowDown [where s = s and h = h] by auto
next
  case (Suc n)
  have ne: "tabItems ((press h ''ArrowDown'' ^^ Suc n) s) \<noteq> []"
    using assms(1) presses_length [where h = h and n = "Suc n" and s = s] by (metis length_0_conv)
  have "currentIndex ((press h ''ArrowDown'' ^^ Suc (Suc n)) s)
      = min (currentIndex ((press h ''ArrowDown'' ^^ Suc n) s) + 1)
            (int (length (tabItems ((press h ''ArrowDown'' ^^ Suc n) s))) - 1)"
    using press_ArrowDown [OF ne, where h = h] by simp
  also have "\<dots> = min (min (int n) (int (length (tabItems s)) - 1) + 1) (int (length (tabItems s)) - 1)"
    using Suc.IH presses_length [where h = h and n = "Suc n" and s = s] by simp
  also have "\<dots> = min (int (Suc n)) (int (length (tabItems s)) - 1)"
    by auto
  finally show ?case .
qed

text \<open>
  C7.  On a rendered list of \<open>N \<ge> 1\<close> items, with \<open>i\<close> the index of the selected item or \<open>-1\<close>
  when none is selected: ArrowDown selects \<open>min (i + 1) (N - 1)\<close> and ArrowUp selects
  \<open>max (i - 1) 0\<close>, so ArrowUp from no selection selects item 0; and \<open>n \<ge> 1\<close> presses of
  ArrowDown from no selection select \<open>min (n - 1) (N - 1)\<close>.
\<close>

theorem keyboard_navigation:
  assumes "tabItems s \<noteq> []"
  shows "currentIndex (press h ''ArrowDown'' s) = min (currentIndex s + 1) (int (length (tabItems s)) - 1)
       \<and> currentIndex (press h ''ArrowUp'' s) = max (currentIndex s - 1) 0
       \<and> (currentIndex s = - 1 \<longrightarrow> currentIndex (press h ''ArrowUp'' s) = 0)
       \<and> (currentIndex s = - 1 \<and> 1 \<le> n \<longrightarrow>
            currentIndex ((press h ''ArrowDown'' ^^ n) s) = min (int n - 1) (int (length (tabItems s)) - 1))"
proof -
  have down: "currentIndex (press h ''ArrowDown'' s) = min (currentIndex s + 1) (int (length (tabItems s)) - 1)"
    using assms by (rule press_ArrowDown)
  have up: "currentIndex (press h ''ArrowUp'' s) = max (currentIndex s - 1) 0"
    using assms by (rule press_ArrowUp)
  have many: "currentIndex ((press h ''ArrowDown'' ^^ n) s) = min (int n - 1) (int (length (tabItems s)) - 1)"
    if "currentIndex s = - 1" "1 \<le> n"
  proof -
    from that(2) obtain m where n: "n = Suc m" by (cases n) auto
    show ?thesis using presses_ArrowDown [OF assms that(1), where h = h and n = m] n by simp
  qed
  from down up many show ?thesis by simp
qed

theorem keyboard_navigation_witness:
  "currentIndex (press host_ok ''ArrowDown'' (sample_popup [sample_tab 1 (lit ''a'') False, sample_tab 2 (lit ''b'') False])) = 0
   \<and> currentIndex (press host_ok ''ArrowUp'' (sample_popup [sample_tab 1 (lit ''a'') False, sample_tab 2 (lit ''b'') False])) = 0
   \<and> currentIndex ((press host_ok ''ArrowDown'' ^^ 5)
        (sample_popup [sample_tab 1 (lit ''a'') False, sample_tab 2 (lit ''b'') False])) = 1"
proof -
  let ?s = "sample_popup [sample_tab 1 (lit ''a'') False, sample_tab 2 (lit ''b'') False]"
  have items: "tabItems ?s = [sample_item 1, sample_item 2]"
    by (simp add: tabItems_def sample_popup_def sample_tab_def)
  have ne: "tabItems ?s \<noteq> []"
    by (simp add: items)
  have none: "currentIndex ?s = - 1"
    by (simp add: currentIndex_def items sample_item_def)
  from keyboard_navigation [OF ne, of host_ok 5] none items show ?thesis
    by simp
qed

section \<open>Highlighting\<close>

text \<open>
  C10.  \<open>highlightText\<close> does not return for every query: the query goes into the pattern
  of \<open>new RegExp\<close> with its HTML characters escaped and its pattern characters as they are.
  For the queries \<open>(\<close> and \<open>c++\<close> the patterns are \<open>(()\<close> and \<open>(c++)\<close>, and the
  constructor throws a \<open>SyntaxError\<close>, in the script and in the module.
\<close>

theorem highlightText_throws:
  "highlightText v e (lit ''x'') (lit ''('') = Inl SyntaxError
   \<and> highlightText v e (lit ''x'') (lit ''c++'') = Inl SyntaxError
   \<and> (\<exists>text query. query \<noteq> [] \<and> highlightText v e text query = Inl SyntaxError)"
proof -
  have 1: "highlightText v e (lit ''x'') (lit ''('') = Inl SyntaxError"
    by (cases v; hypsubst; code_simp)
  have 2: "highlightText v e (lit ''x'') (lit ''c++'') = Inl SyntaxError"
    by (cases v; hypsubst; code_simp)
  have "lit ''('' \<noteq> [] \<and> highlightText v e (lit ''x'') (lit ''('') = Inl SyntaxError"
    using 1 by (simp add: lit_def)
  then have "\<exists>text query. query \<noteq> [] \<and> highlightText v e text query = Inl SyntaxError"
    by blast
  with 1 2 show ?thesis by simp
qed

section \<open>The substring filter\<close>

lemma Bex_upto: "(\<exists>i \<in> set [0 ..< Suc n]. P i) \<longleftrightarrow> (\<exists>i \<le> n. P i)"
  by (auto simp del: upt_Suc simp: less_Suc_eq_le)




lemma contains_ci_Nil [simp]: "contains_ci e t []"
  unfolding contains_ci_def Bex_upto by (auto simp: occurs_at_def)



lemma filter_throwing_total:
  "(\<And>x. f x = Inr (g x)) \<Longrightarrow> filter_throwing f xs = Inr (filter g xs)"
  by (induction xs) simp_all









section \<open>The case of the query\<close>

lemma filterTabs_same_folded_query:
  assumes "toLowerCase (js_engine h) q = toLowerCase (js_engine h) q'"
  shows "filteredTabs (snd (filterTabs v h (s\<lparr>searchInput_value := q\<rparr>))) =
         filteredTabs (snd (filterTabs v h (s\<lparr>searchInput_value := q'\<rparr>)))"
proof (cases "trim (toLowerCase (js_engine h) q) = []")
  case True
  then show ?thesis using assms by (simp add: filterTabs_def)
next
  case False
  show ?thesis
  proof (cases "filter_throwing (tab_matches v (js_engine h) (exactMatch s)
                  (trim (toLowerCase (js_engine h) q))) (tabs s)")
    case (Inl err)
    then show ?thesis using False assms by (simp add: filterTabs_def)
  next
    case (Inr matching)
    then show ?thesis using False assms by (simp add: filterTabs_def)
  qed
qed

text \<open>
  C9 (amended).  In both modes the filter gives the same tabs for two queries with the same
  lower case: for a query and its lower case when lower-casing twice is lower-casing
  once, and for a query and its upper case when the lower case of the upper case is the
  lower case of the query.
\<close>

theorem filterTabs_case_of_query:
  "(toLowerCase (js_engine h) (toLowerCase (js_engine h) q) = toLowerCase (js_engine h) q \<longrightarrow>
      filteredTabs (snd (filterTabs v h (s\<lparr>searchInput_value := toLowerCase (js_engine h) q\<rparr>))) =
        filteredTabs (snd (filterTabs v h (s\<lparr>searchInput_value := q\<rparr>))))
   \<and> (toLowerCase (js_engine h) (toUpperCase (js_engine h) q) = toLowerCase (js_engine h) q \<longrightarrow>
      filteredTabs (snd (filterTabs v h (s\<lparr>searchInput_value := toUpperCase (js_engine h) q\<rparr>))) =
        filteredTabs (snd (filterTabs v h (s\<lparr>searchInput_value := q\<rparr>))))"
  using filterTabs_same_folded_query by blast

theorem filterTabs_case_of_query_witness:
  "toUpperCase (js_engine host_ok) (lit ''Git'') = lit ''GIT''
   \<and> filteredTabs (snd (filterTabs Module host_ok
        ((sample_popup [sample_tab 1 (lit ''GitHub'') False, sample_tab 2 (lit ''Google'') False])
           \<lparr>searchInput_value := lit ''GIT''\<rparr>)))
     = filteredTabs (snd (filterTabs Module host_ok
        ((sample_popup [sample_tab 1 (lit ''GitHub'') False, sample_tab 2 (lit ''Google'') False])
           \<lparr>searchInput_value := lit ''Git''\<rparr>)))"
proof -
  have u: "toUpperCase (js_engine host_ok) (lit ''Git'') = lit ''GIT''"
    by code_simp
  have l: "toLowerCase (js_engine host_ok) (lit ''GIT'') = toLowerCase (js_engine host_ok) (lit ''Git'')"
    by code_simp
  from filterTabs_case_of_query
    [where v = Module and h = host_ok and q = "lit ''Git''"
       and s = "sample_popup [sample_tab 1 (lit ''GitHub'') False, sample_tab 2 (lit ''Google'') False]"]
    u l
  show ?thesis by simp
qed

text \<open>
  The upper case of \<open>stra\<ss>e\<close> is \<open>STRASSE\<close>, whose lower case is \<open>strasse\<close>: the first query
  finds the tab \<open>Stra\<ss>e\<close> and the second does not.
\<close>

theorem filterTabs_upper_case_counterexample:
  "toUpperCase (js_engine host_ok) (lit ''stra'' @ [0xDF] @ lit ''e'') = lit ''STRASSE''
   \<and> filteredTabs (snd (filterTabs Module host_ok
        ((sample_popup [sample_tab 1 (lit ''Stra'' @ [0xDF] @ lit ''e'') False])
           \<lparr>searchInput_value := lit ''stra'' @ [0xDF] @ lit ''e''\<rparr>)))
       = [sample_tab 1 (lit ''Stra'' @ [0xDF] @ lit ''e'') False]
   \<and> filteredTabs (snd (filterTabs Module host_ok
        ((sample_popup [sample_tab 1 (lit ''Stra'' @ [0xDF] @ lit ''e'') False])
           \<lparr>searchInput_value := lit ''STRASSE''\<rparr>)))
       = []"
  by code_simp

section \<open>The exact-match filter\<close>

text \<open>
  C8.  The module tests the pattern \<open>\b\<close>, the escaped query, \<open>\b\<close> (\<^verbatim>\<open>src/build/README.md\<close>,
  lines 474-478, under the comment "Match whole word").  After the last \<open>+\<close> of the query
  \<open>c++\<close> the assertion \<open>\b\<close> asks for a word character: the filter leaves out the tab
  \<open>c++ guide\<close>, which contains the query as a whole word, and keeps the tab \<open>c++x\<close>, which
  does not.
\<close>

theorem filterTabs_exact_not_whole_word:
  "contains_word (js_engine host_ok) (title (sample_tab 1 (lit ''c++ guide'') False)) (lit ''c++'')
   \<and> \<not> contains_word (js_engine host_ok) (title (sample_tab 2 (lit ''c++x'') False)) (lit ''c++'')
   \<and> \<not> contains_word (js_engine host_ok) (url (sample_tab 2 (lit ''c++x'') False)) (lit ''c++'')
   \<and> filteredTabs (snd (filterTabs Module host_ok
        ((sample_popup [sample_tab 1 (lit ''c++ guide'') False, sample_tab 2 (lit ''c++x'') False])
           \<lparr>exactMatch := True, searchInput_value := lit ''c++''\<rparr>)))
       = [sample_tab 2 (lit ''c++x'') False]"
  by code_simp

section \<open>Closing the other tabs\<close>

lemma loadTabs_host_calls:
  "host_calls (snd (loadTabs v h s)) =
     host_calls s @ (case chrome_tabs_query_all h of
                       Inl err \<Rightarrow> [Tabs_query_all]
                     | Inr ts \<Rightarrow> [Tabs_query_all, Tabs_query_active])"
proof -
  obtain r s' where t: "loadTabs_try v h (showLoading True s) = (r, s')"
    by (cases "loadTabs_try v h (showLoading True s)")
  have "host_calls s' = host_calls s @ (case chrome_tabs_query_all h of
                       Inl err \<Rightarrow> [Tabs_query_all]
                     | Inr ts \<Rightarrow> [Tabs_query_all, Tabs_query_active])"
    using t [symmetric]
    by (auto simp: loadTabs_try_def split: sum.splits dest: arg_cong [where f = snd])
  then show ?thesis
    using t by (cases r) (simp_all add: loadTabs_def)
qed

text \<open>
  The module asks the host to close exactly the tabs of \<open>tabsToClose\<close>, in one call, and
  only when the user confirmed, a current tab is known and the list is not empty.
\<close>

lemma closeOtherTabs_Module:
  "filter is_removal (host_calls (snd (closeOtherTabs Module h s))) =
     filter is_removal (host_calls s)
       @ (if confirm h \<and> currentTabId s \<noteq> None \<and> tabsToClose s \<noteq> []
          then [Tabs_remove_all (tabsToClose s)] else [])"
  by (auto simp: closeOtherTabs_def loadTabs_host_calls is_removal_def split: option.splits sum.splits)

lemma tabsToClose_current:
  "currentTabId s = Some c \<Longrightarrow>
   tabsToClose s = map tab_id (filter (\<lambda>t. tab_id t \<noteq> c \<and> \<not> pinned t) (tabs s))"
  by (simp add: tabsToClose_def)

text \<open>
  C1.  The script (\<^verbatim>\<open>src/popup.js\<close>, line 248) has no test of \<open>currentTabId\<close>: with no current
  tab, a confirmed \<open>closeOtherTabs()\<close> asks the host to close every tab that is not pinned.
  Here tab 1 is not pinned and tab 2 is.
\<close>

theorem closeOtherTabs_Script_without_current:
  "currentTabId (sample_popup [sample_tab 1 (lit ''a'') False, sample_tab 2 (lit ''b'') True]) = None
   \<and> host_calls (snd (closeOtherTabs Script host_ok
        (sample_popup [sample_tab 1 (lit ''a'') False, sample_tab 2 (lit ''b'') True])))
       = [Confirm, Tabs_remove_all [1], Tabs_query_all, Tabs_query_active]"
  by code_simp

section \<open>Escaping\<close>

lemma replaceAll_append: "replaceAll c r (a @ b) = replaceAll c r a @ replaceAll c r b"
  by (simp add: replaceAll_def)

lemma replaceAll_Cons: "replaceAll c r (x # s) = (if x = c then r else [x]) @ replaceAll c r s"
  by (simp add: replaceAll_def)

lemma replaceAll_Nil [simp]: "replaceAll c r [] = []"
  by (simp add: replaceAll_def)

lemma escapeHtml_Module_Cons:
  "escapeHtml Module (Str (c # s)) = html_entity c @ escapeHtml Module (Str s)"
  by (simp add: escapeHtml_def html_entity_def replaceAll_Cons replaceAll_append lit_def)

lemma escapeHtml_Module_chars: "escapeHtml Module (Str s) = concat (map html_entity s)"
proof (induction s)
  case Nil
  show ?case by (simp add: escapeHtml_def)
next
  case (Cons c s)
  then show ?case by (simp add: escapeHtml_Module_Cons)
qed

text \<open>
  The module does what the specification says of \<open>escapeHtml\<close>: each character of a string
  becomes its entity, the ampersands of the entities are not escaped again, and a value
  that is not a string is escaped as \<open>String(value)\<close>.
\<close>

lemma escapeHtml_Module:
  "escapeHtml Module (Str s) = concat (map html_entity s)
   \<and> escapeHtml Module Null = lit ''null''
   \<and> escapeHtml Module Undefined = lit ''undefined''
   \<and> escapeHtml Module (Boolean b) = ToString (Boolean b)
   \<and> escapeHtml Module (Str (lit ''<x>'')) = lit ''&lt;x&gt;''
   \<and> escapeHtml Module (Str (lit ''A & B'')) = lit ''A &amp; B''"
proof -
  have "escapeHtml Module Null = lit ''null''" by code_simp
  moreover have "escapeHtml Module Undefined = lit ''undefined''" by code_simp
  moreover have "escapeHtml Module (Boolean b) = ToString (Boolean b)"
    by (cases b) (simp_all add: escapeHtml_def replaceAll_def lit_def)
  moreover have "escapeHtml Module (Str (lit ''<x>'')) = lit ''&lt;x&gt;''" by code_simp
  moreover have "escapeHtml Module (Str (lit ''A & B'')) = lit ''A &amp; B''" by code_simp
  ultimately show ?thesis using escapeHtml_Module_chars by simp
qed

text \<open>
  C2.  The script (\<^verbatim>\<open>src/popup.js\<close>, lines 203-207) escapes through the DOM, which leaves the
  two quotation marks as they are and turns \<open>null\<close> and \<open>undefined\<close> into the empty string.
\<close>

theorem escapeHtml_Script_quotes:
  "escapeHtml Script (Str [0x22, 0x27]) = [0x22, 0x27]
   \<and> escapeHtml Script Null = []
   \<and> escapeHtml Script Undefined = []"
  by code_simp

section \<open>Highlighting a query that is a pattern\<close>

text \<open>What holds of \<open>highlightText\<close> for every text: the empty query, the empty text in the
  module, and the example of the specification.\<close>

lemma highlightText_empty:
  "highlightText v e text [] = Inr (escapeHtml v (Str text))
   \<and> highlightText Module e [] query = Inr []
   \<and> highlightText v sample_engine (lit ''Hello World'') (lit ''world'') =
        Inr (lit ''Hello <span class='' @ [0x22] @ lit ''highlight'' @ [0x22] @ lit ''>World</span>'')"
proof -
  have "escapeHtml Module (Str []) = []" by code_simp
  then have "highlightText v e text [] = Inr (escapeHtml v (Str text))"
    by (simp add: highlightText_def)
  moreover have "highlightText Module e [] query = Inr []"
    by (simp add: highlightText_def)
  moreover have "highlightText v sample_engine (lit ''Hello World'') (lit ''world'') =
        Inr (lit ''Hello <span class='' @ [0x22] @ lit ''highlight'' @ [0x22] @ lit ''>World</span>'')"
    by (cases v; hypsubst; code_simp)
  ultimately show ?thesis by simp
qed

text \<open>
  C3.  The query \<open>.\<close> does not occur in the text \<open>ab\<close>, yet \<open>highlightText\<close> wraps both
  characters: as a pattern, \<open>.\<close> matches any character.
\<close>

theorem highlightText_dot:
  "highlightText v e (lit ''ab'') (lit ''.'') =
     Inr (lit ''<span class='' @ [0x22] @ lit ''highlight'' @ [0x22] @ lit ''>a</span>''
        @ lit ''<span class='' @ [0x22] @ lit ''highlight'' @ [0x22] @ lit ''>b</span>'')"
  by (cases v; hypsubst; code_simp)

end
